theory Spec2Isabelle
  imports Main "HOL-Library.AList"
begin

section \<open>The WebRTC to RTMP bridge (src/bridge/WebRTCToRTMPBridge.js)\<close>

subsection \<open>Handles, sessions and the bridge object\<close>

text \<open>
  Native objects (peer connections, child processes, media tracks) are opaque to the
  bridge; the model names each by a number drawn from a counter, so that two objects
  created by two calls are different. A JavaScript \<open>Map\<close> is an association list
  handled with \<open>AList.update\<close> (\<open>set\<close>: replaces in place, appends a new key),
  \<open>AList.delete\<close> and \<open>map_of\<close> (\<open>get\<close>); its \<open>size\<close> is the length of the list.
\<close>

type_synonym handle = nat

datatype signal = SIGTERM | SIGKILL

record track =
  track_id :: handle
  track_kind :: string

record session_description =
  sd_type :: string
  sd_sdp :: string

record ice_candidate =
  candidate :: string
  sdpMLineIndex :: "nat option"
  sdpMid :: "string option"

text \<open>The object stored by \<open>handleOffer\<close> under the stream identifier (lines 195-207).\<close>

record streamInfo =
  pc :: "handle option"
  streamKey :: string
  iceCandidates :: "ice_candidate list"
  answer :: session_description
  ffmpeg :: "handle option"
  audioTrack :: "track option"
  videoTrack :: "track option"
  sdpCreated :: bool

text \<open>
  What the bridge does, in program order: calls on native objects, child processes,
  timers, the notifications it emits as an \<open>EventEmitter\<close>, and the removal of a
  session from \<open>activeStreams\<close>, which is recorded so that its place among the
  calls can be stated. Console output is not recorded.
\<close>

datatype effect =
    NewPeerConnection handle
  | PcClose handle
  | Spawn handle string
  | Kill handle signal
  | SetTimeoutKill handle nat
  | TrackStop handle
  | CreateSDPForFFmpeg string handle handle
  | AddedIceCandidate handle ice_candidate
  | Emit string string
  | ActiveStreamsDelete string

text \<open>
  The bridge instance: the fields of the class (\<open>activeStreams\<close>, \<open>muxRtmpUrl\<close>,
  \<open>wrtcAvailable\<close>), the module-level bindings filled by \<open>loadWrtc\<close>, the \<open>killed\<close>
  flag of the child processes, the handle counter, the effects so far, and the clock
  of the event loop in milliseconds.
\<close>

record bridge =
  activeStreams :: "(string \<times> streamInfo) list"
  muxRtmpUrl :: string
  wrtcAvailable :: bool
  module_wrtcAvailable :: bool
  module_RTCPeerConnection :: bool
  module_RTCSessionDescription :: bool
  module_RTCIceCandidate :: bool
  next_handle :: handle
  killed :: "handle set"
  effects :: "effect list"
  now :: nat

subsection \<open>The native engine and the operating system, as an oracle\<close>

datatype kill_outcome = KillThrows | KillDelivered | KillNotDelivered

datatype iceGatheringState = GatheringNew | Gathering | Complete

datatype ice_event =
    IceCandidateEvent "ice_candidate option"
  | IceGatheringStateChange iceGatheringState

record wrtc_exports =
  exp_RTCPeerConnection :: bool
  exp_RTCSessionDescription :: bool
  exp_RTCIceCandidate :: bool

record wrtc_module =
  direct_exports :: wrtc_exports
  default_export :: "wrtc_exports option"

text \<open>
  A promise of the engine that \<open>handleOffer\<close> awaits: it never settles, or it is
  rejected or fulfilled after some milliseconds.
\<close>

datatype 'a promise = Never | Rejected nat | Fulfilled nat 'a

fun settle_time :: "'a promise \<Rightarrow> nat" where
  "settle_time Never = 0"
| "settle_time (Rejected d) = d"
| "settle_time (Fulfilled d v) = d"

text \<open>
  Everything the code cannot decide itself is a field of \<open>native\<close>: how the dynamic
  import of \<open>wrtc\<close> settles and what it exports, how each negotiation step of the
  engine settles, the ICE events of the new peer connection (those that fire before
  the bounded wait starts, the gathering state at that moment, and the later ones with
  their time in milliseconds after the wait started), whether \<open>spawn\<close> fails
  at once, the outcome of \<open>kill\<close>, and whether building or adding a remote
  candidate fails.
\<close>

record native =
  import_wrtc :: "wrtc_module promise"
  construct_pc_fails :: bool
  setRemoteDescription :: "session_description \<Rightarrow> unit promise"
  createAnswer :: "session_description promise"
  setLocalDescription :: "unit promise"
  spawn_fails :: "string \<Rightarrow> bool"
  ice_before_wait :: "ice_candidate list"
  ice_state_at_wait :: iceGatheringState
  ice_timeline :: "(nat \<times> ice_event) list"
  kill_result :: "handle \<Rightarrow> signal \<Rightarrow> kill_outcome"
  construct_candidate_fails :: "ice_candidate \<Rightarrow> bool"
  addIceCandidate_fails :: "handle \<Rightarrow> ice_candidate \<Rightarrow> bool"
  pc_connectionState :: "handle \<Rightarrow> string"
  pc_iceConnectionState :: "handle \<Rightarrow> string"

definition log_effects :: "effect list \<Rightarrow> bridge \<Rightarrow> bridge" where
  "log_effects es st = st\<lparr>effects := effects st @ es\<rparr>"

text \<open>The clock moves while a call is suspended at an \<open>await\<close>.\<close>

definition tick :: "nat \<Rightarrow> bridge \<Rightarrow> bridge" where
  "tick d st = st\<lparr>now := now st + d\<rparr>"

text \<open>What \<open>handleOffer\<close> throws.\<close>

datatype error = WrtcNotAvailable | EngineError string | SpawnError string

subsection \<open>cleanupStream (lines 408-457)\<close>

text \<open>
  Lines 416-422. \<open>pc.close()\<close> sits in a \<open>try\<close> whose handler only logs, so
  the control flow is the same whether or not the call throws.
\<close>

definition cleanup_close_pc :: "streamInfo \<Rightarrow> bridge \<Rightarrow> bridge" where
  "cleanup_close_pc info st =
     (case pc info of None \<Rightarrow> st | Some p \<Rightarrow> log_effects [PcClose p] st)"

text \<open>
  Lines 424-435. When \<open>kill('SIGTERM')\<close> throws, the \<open>setTimeout\<close> after it in the
  same \<open>try\<close> is skipped. A delivered signal sets the \<open>killed\<close> flag of the process
  object.
\<close>

definition cleanup_kill_ffmpeg :: "native \<Rightarrow> streamInfo \<Rightarrow> bridge \<Rightarrow> bridge" where
  "cleanup_kill_ffmpeg env info st =
     (case ffmpeg info of
        None \<Rightarrow> st
      | Some q \<Rightarrow>
          (case kill_result env q SIGTERM of
             KillThrows \<Rightarrow> log_effects [Kill q SIGTERM] st
           | KillDelivered \<Rightarrow>
               log_effects [Kill q SIGTERM, SetTimeoutKill q 5000]
                 (st\<lparr>killed := insert q (killed st)\<rparr>)
           | KillNotDelivered \<Rightarrow>
               log_effects [Kill q SIGTERM, SetTimeoutKill q 5000] st))"

text \<open>Lines 437-451.\<close>

definition cleanup_stop_track :: "track option \<Rightarrow> bridge \<Rightarrow> bridge" where
  "cleanup_stop_track t st =
     (case t of None \<Rightarrow> st | Some tr \<Rightarrow> log_effects [TrackStop (track_id tr)] st)"

text \<open>Lines 416-451 in order: everything \<open>cleanupStream\<close> does before line 453.\<close>

definition cleanup_release :: "native \<Rightarrow> streamInfo \<Rightarrow> bridge \<Rightarrow> bridge" where
  "cleanup_release env info st =
     cleanup_stop_track (videoTrack info)
       (cleanup_stop_track (audioTrack info)
         (cleanup_kill_ffmpeg env info
           (cleanup_close_pc info st)))"

text \<open>
  The whole function: the lookup and early return of lines 411-414, the release,
  then \<open>this.activeStreams.delete(streamId)\<close> (line 453) and the
  \<open>stream-cleaned\<close> notification (line 455).
\<close>

definition cleanupStream :: "native \<Rightarrow> string \<Rightarrow> bridge \<Rightarrow> bridge" where
  "cleanupStream env streamId st =
     (case map_of (activeStreams st) streamId of
        None \<Rightarrow> st
      | Some info \<Rightarrow>
          (let st1 = cleanup_release env info st;
               st2 = log_effects [ActiveStreamsDelete streamId]
                       (st1\<lparr>activeStreams := AList.delete streamId (activeStreams st1)\<rparr>)
           in log_effects [Emit ''stream-cleaned'' streamId] st2))"

text \<open>How many times the \<open>stream-cleaned\<close> notification of a stream was emitted.\<close>

definition cleaned_count :: "string \<Rightarrow> effect list \<Rightarrow> nat" where
  "cleaned_count streamId es = length (filter (\<lambda>e. e = Emit ''stream-cleaned'' streamId) es)"

subsection \<open>loadWrtc (lines 21-58)\<close>

text \<open>
  The three module-level bindings are assigned from the exports before the check of
  line 43; the module-level flag is set only when all three are there. A failed
  import, a module with neither form of export, and a missing class all end in the
  \<open>catch\<close> of line 50. The function is suspended at the \<open>await\<close> of line 23: when
  the import never settles it does not return (\<open>None\<close>).
\<close>

definition assign_wrtc :: "wrtc_exports \<Rightarrow> bridge \<Rightarrow> bridge" where
  "assign_wrtc e st =
     st\<lparr>module_RTCPeerConnection := exp_RTCPeerConnection e,
        module_RTCSessionDescription := exp_RTCSessionDescription e,
        module_RTCIceCandidate := exp_RTCIceCandidate e,
        module_wrtcAvailable :=
          (exp_RTCPeerConnection e \<and> exp_RTCSessionDescription e \<and> exp_RTCIceCandidate e)\<rparr>"

definition loadWrtc :: "native \<Rightarrow> bridge \<Rightarrow> bridge option" where
  "loadWrtc env st =
     (case import_wrtc env of
        Never \<Rightarrow> None
      | Rejected d \<Rightarrow> Some ((tick d st)\<lparr>module_wrtcAvailable := False\<rparr>)
      | Fulfilled d m \<Rightarrow>
          Some (if exp_RTCPeerConnection (direct_exports m)
                then assign_wrtc (direct_exports m) (tick d st)
                else (case default_export m of
                        Some e \<Rightarrow> assign_wrtc e (tick d st)
                      | None \<Rightarrow> (tick d st)\<lparr>module_wrtcAvailable := False\<rparr>)))"

subsection \<open>waitForIceGathering (lines 227-248)\<close>

text \<open>Lines 155-166: a non-null candidate is pushed on the array, a null one only logged.\<close>

definition onicecandidate :: "ice_candidate option \<Rightarrow> ice_candidate list \<Rightarrow> ice_candidate list" where
  "onicecandidate c arr = (case c of Some x \<Rightarrow> arr @ [x] | None \<Rightarrow> arr)"

text \<open>
  The promise of \<open>waitForIceGathering\<close> while it is pending: the events of the peer
  connection are delivered in order, each at its time. An event at or after the
  timeout finds that the timer of line 243 has fired: the listener is removed and the
  promise resolved at the timeout. Before that, a candidate event runs
  \<open>onicecandidate\<close>, and a state change runs \<open>checkComplete\<close>, which resolves the
  promise when the state is \<open>complete\<close>. With no event left the timer fires. The
  result is the time at which the promise resolved and the candidate array then.
\<close>

fun wait_pending :: "nat \<Rightarrow> (nat \<times> ice_event) list \<Rightarrow> ice_candidate list \<Rightarrow> nat \<times> ice_candidate list" where
  "wait_pending timeout [] arr = (timeout, arr)"
| "wait_pending timeout ((t, e) # evs) arr =
     (if timeout \<le> t then (timeout, arr)
      else (case e of
              IceCandidateEvent c \<Rightarrow> wait_pending timeout evs (onicecandidate c arr)
            | IceGatheringStateChange s \<Rightarrow>
                (if s = Complete then (t, arr) else wait_pending timeout evs arr)))"

text \<open>Lines 229-232: a connection that is already \<open>complete\<close> resolves at once.\<close>

definition waitForIceGathering ::
  "iceGatheringState \<Rightarrow> (nat \<times> ice_event) list \<Rightarrow> nat \<Rightarrow> ice_candidate list \<Rightarrow> nat \<times> ice_candidate list" where
  "waitForIceGathering s0 evs timeout arr =
     (if s0 = Complete then (0, arr) else wait_pending timeout evs arr)"

subsection \<open>setupMediaProcessing (lines 253-349) and its handlers\<close>

text \<open>
  \<open>spawn\<close> (line 277) throws at once, with no process started, when an argument
  holds a NUL byte, which the publish URL does when the stream key does; the oracle
  stands for every other way in which the call, or the attaching of the stream handler
  of line 282 to a child without streams, throws synchronously. A process that cannot
  be started for another reason reports it later through its \<open>error\<close> event.
\<close>

definition spawn_throws :: "native \<Rightarrow> string \<Rightarrow> bool" where
  "spawn_throws env rtmpUrl = (CHR 0x00 \<in> set rtmpUrl \<or> spawn_fails env rtmpUrl)"

text \<open>
  The body of \<open>setupMediaProcessing\<close> itself: the FFmpeg process is spawned (line 277),
  the handlers are attached, and the process is stored on the session that the map
  holds for the stream identifier at that moment, if there is one (lines 345-348).
  A throw of \<open>spawn\<close> leaves the function before anything else happened.
\<close>

definition setupMediaProcessing :: "native \<Rightarrow> string \<Rightarrow> string \<Rightarrow> bridge \<Rightarrow> error + bridge" where
  "setupMediaProcessing env streamId key st =
     (let rtmpUrl = muxRtmpUrl st @ ''/'' @ key
      in if spawn_throws env rtmpUrl then Inl (SpawnError rtmpUrl)
         else
           (let q = next_handle st;
                st1 = log_effects [Spawn q rtmpUrl] (st\<lparr>next_handle := Suc q\<rparr>)
            in Inr (case map_of (activeStreams st1) streamId of
                      None \<Rightarrow> st1
                    | Some info \<Rightarrow>
                        st1\<lparr>activeStreams :=
                          AList.update streamId (info\<lparr>ffmpeg := Some q\<rparr>) (activeStreams st1)\<rparr>)))"

text \<open>
  Lines 354-366. The function reads the local description and writes to the console;
  the model records that it was called.
\<close>

definition createSDPForFFmpeg :: "string \<Rightarrow> handle \<Rightarrow> handle \<Rightarrow> bridge \<Rightarrow> bridge" where
  "createSDPForFFmpeg streamId p q st = log_effects [CreateSDPForFFmpeg streamId p q] st"

text \<open>
  The \<open>ontrack\<close> handler (lines 309-343). \<open>streamId\<close>, the peer connection \<open>p\<close> and the
  process \<open>q\<close> are the variables its closure captured. The session is looked up in
  the map when the event fires.
\<close>

definition ontrack :: "string \<Rightarrow> handle \<Rightarrow> handle \<Rightarrow> track \<Rightarrow> bridge \<Rightarrow> bridge" where
  "ontrack streamId p q tr st =
     (case map_of (activeStreams st) streamId of
        None \<Rightarrow> st
      | Some info \<Rightarrow>
          (let info1 = (if track_kind tr = ''audio'' then info\<lparr>audioTrack := Some tr\<rparr>
                        else if track_kind tr = ''video'' then info\<lparr>videoTrack := Some tr\<rparr>
                        else info);
               both = (audioTrack info1 \<noteq> None \<and> videoTrack info1 \<noteq> None \<and> \<not> sdpCreated info1);
               st1 = (if both then createSDPForFFmpeg streamId p q st else st);
               info2 = (if both then info1\<lparr>sdpCreated := True\<rparr> else info1);
               info3 = info2\<lparr>ffmpeg := Some q\<rparr>
           in st1\<lparr>activeStreams := AList.update streamId info3 (activeStreams st1)\<rparr>))"

text \<open>The connection-state handler (lines 169-179); \<open>state\<close> is \<open>pc.connectionState\<close>.\<close>

definition onconnectionstatechange :: "native \<Rightarrow> string \<Rightarrow> string \<Rightarrow> bridge \<Rightarrow> bridge" where
  "onconnectionstatechange env streamId state st =
     (if state = ''connected'' then log_effects [Emit ''stream-connected'' streamId] st
      else if state = ''failed'' \<or> state = ''disconnected'' \<or> state = ''closed''
      then cleanupStream env streamId st
      else st)"

text \<open>
  The handlers of the FFmpeg process (lines 293-306) and of a track's \<open>ended\<close>
  event (lines 339-342). The exit code is a number or \<open>null\<close>.
\<close>

definition ffmpeg_on_close :: "native \<Rightarrow> string \<Rightarrow> int option \<Rightarrow> bridge \<Rightarrow> bridge" where
  "ffmpeg_on_close env streamId code st =
     (if code \<noteq> Some 0 \<and> code \<noteq> None then cleanupStream env streamId st else st)"

definition ffmpeg_on_error :: "native \<Rightarrow> string \<Rightarrow> bridge \<Rightarrow> bridge" where
  "ffmpeg_on_error env streamId st = cleanupStream env streamId st"

definition track_onended :: "native \<Rightarrow> string \<Rightarrow> bridge \<Rightarrow> bridge" where
  "track_onended env streamId st = cleanupStream env streamId st"

subsection \<open>handleOffer (lines 129-222)\<close>

record offer_result =
  res_answer :: session_description
  res_iceCandidates :: "ice_candidate list"

text \<open>
  The result is \<open>None\<close> when the call never returns, \<open>Some (Inl e)\<close> when it throws
  \<open>e\<close> (the \<open>catch\<close> of line 218 logs and rethrows), \<open>Some (Inr r)\<close> when it returns
  \<open>r\<close>; with it comes the bridge as the call left it, or as it is while the call
  stays suspended. The steps are those of the source in order: the reload of lines
  133-136, the check of line 138, the constructor, \<open>setRemoteDescription\<close>,
  \<open>createAnswer\<close>, \<open>setLocalDescription\<close>, the bounded wait of line 189,
  \<open>setupMediaProcessing\<close>, and \<open>this.activeStreams.set\<close>. At each \<open>await\<close> of an
  engine promise the call stays suspended until the promise settles, for good when
  it never does, and the clock moves by that time; the wait of line 189 moves it by the
  time at which \<open>waitForIceGathering\<close> resolves. \<open>new RTCSessionDescription(offer)\<close>
  (line 182) throws when the class is not bound; an offer that the engine refuses
  there or in the call is a rejected \<open>setRemoteDescription\<close>. The call is taken as a
  whole, with no
  other request or callback of the bridge running between its steps. The candidate
  array is returned and stored on the session as one object: the result holds its
  content at the return, and the candidates that the peer connection reports later are
  pushed on the stored one (\<open>pc_onicecandidate\<close> below).
\<close>

definition handleOffer ::
  "native \<Rightarrow> string \<Rightarrow> string \<Rightarrow> session_description \<Rightarrow> bridge \<Rightarrow>
     (error + offer_result) option \<times> bridge" where
  "handleOffer env streamId key offer st =
     (case (if wrtcAvailable st then Some st
            else map_option (\<lambda>l. l\<lparr>wrtcAvailable := module_wrtcAvailable l\<rparr>) (loadWrtc env st)) of
        None \<Rightarrow> (None, st)
      | Some st1 \<Rightarrow>
          if \<not> wrtcAvailable st1 \<or> \<not> module_RTCPeerConnection st1
          then (Some (Inl WrtcNotAvailable), st1)
          else if construct_pc_fails env
          then (Some (Inl (EngineError ''RTCPeerConnection'')), st1)
          else
            (let p = next_handle st1;
                 st2 = log_effects [NewPeerConnection p] (st1\<lparr>next_handle := Suc p\<rparr>)
             in if \<not> module_RTCSessionDescription st2
                then (Some (Inl (EngineError ''RTCSessionDescription'')), st2)
                else
                  (case setRemoteDescription env offer of
                     Never \<Rightarrow> (None, st2)
                   | Rejected d1 \<Rightarrow> (Some (Inl (EngineError ''setRemoteDescription'')), tick d1 st2)
                   | Fulfilled d1 u1 \<Rightarrow>
                       (case createAnswer env of
                          Never \<Rightarrow> (None, tick d1 st2)
                        | Rejected d2 \<Rightarrow>
                            (Some (Inl (EngineError ''createAnswer'')), tick d2 (tick d1 st2))
                        | Fulfilled d2 ans \<Rightarrow>
                            (case setLocalDescription env of
                               Never \<Rightarrow> (None, tick d2 (tick d1 st2))
                             | Rejected d3 \<Rightarrow>
                                 (Some (Inl (EngineError ''setLocalDescription'')),
                                  tick d3 (tick d2 (tick d1 st2)))
                             | Fulfilled d3 u3 \<Rightarrow>
                                 (let w = waitForIceGathering (ice_state_at_wait env)
                                            (ice_timeline env) 5000 (ice_before_wait env);
                                      cands = snd w;
                                      st3 = tick (fst w) (tick d3 (tick d2 (tick d1 st2)))
                                  in (case setupMediaProcessing env streamId key st3 of
                                        Inl e \<Rightarrow> (Some (Inl e), st3)
                                      | Inr st4 \<Rightarrow>
                                          (let reply = \<lparr>sd_type = sd_type ans, sd_sdp = sd_sdp ans\<rparr>;
                                               info = \<lparr>pc = Some p, streamKey = key,
                                                       iceCandidates = cands, answer = reply,
                                                       ffmpeg = None, audioTrack = None,
                                                       videoTrack = None, sdpCreated = False\<rparr>;
                                               st5 = st4\<lparr>activeStreams :=
                                                       AList.update streamId info (activeStreams st4)\<rparr>
                                           in (Some (Inr \<lparr>res_answer = reply,
                                                           res_iceCandidates = cands\<rparr>), st5)))))))))"

text \<open>
  The \<open>onicecandidate\<close> handler (lines 155-166) for an event that fires after
  \<open>handleOffer\<close> has returned. Its closure holds the stream identifier and the array
  that the call stored on its session; that array is reachable from the map while the
  entry of the identifier is the session of this peer connection \<open>p\<close>.
\<close>

definition pc_onicecandidate :: "string \<Rightarrow> handle \<Rightarrow> ice_candidate option \<Rightarrow> bridge \<Rightarrow> bridge" where
  "pc_onicecandidate streamId p c st =
     (case map_of (activeStreams st) streamId of
        None \<Rightarrow> st
      | Some info \<Rightarrow>
          if pc info = Some p
          then st\<lparr>activeStreams :=
                 AList.update streamId
                   (info\<lparr>iceCandidates := onicecandidate c (iceCandidates info)\<rparr>)
                   (activeStreams st)\<rparr>
          else st)"

text \<open>Lines 397-403.\<close>

definition getIceCandidates :: "string \<Rightarrow> bridge \<Rightarrow> ice_candidate list" where
  "getIceCandidates streamId st =
     (case map_of (activeStreams st) streamId of None \<Rightarrow> [] | Some info \<Rightarrow> iceCandidates info)"

subsection \<open>handleIceCandidate, getStreamInfo, getActiveStreamCount\<close>

text \<open>
  Lines 371-392. The function has no \<open>throw\<close> of its own and both native calls are
  inside the \<open>try\<close> whose handler returns \<open>false\<close>, so its result is a boolean.
\<close>

definition handleIceCandidate :: "native \<Rightarrow> string \<Rightarrow> ice_candidate \<Rightarrow> bridge \<Rightarrow> bool \<times> bridge" where
  "handleIceCandidate env streamId cand st =
     (case map_of (activeStreams st) streamId of
        None \<Rightarrow> (False, st)
      | Some info \<Rightarrow>
          (case pc info of
             None \<Rightarrow> (False, st)
           | Some p \<Rightarrow>
               if \<not> wrtcAvailable st then (False, st)
               else if \<not> module_RTCIceCandidate st \<or> construct_candidate_fails env cand
               then (False, st)
               else if addIceCandidate_fails env p cand then (False, st)
               else (True, log_effects [AddedIceCandidate p cand] st)))"

record stream_status =
  status_streamId :: string
  status_streamKey :: string
  status_connectionState :: string
  status_iceConnectionState :: string
  hasAudio :: bool
  hasVideo :: bool
  ffmpegRunning :: "bool option"
  status_wrtcAvailable :: bool

text \<open>Lines 469-485; \<open>None\<close> is \<open>null\<close>, also for \<open>ffmpegRunning\<close> of a session without process.\<close>

definition or_unknown :: "string \<Rightarrow> string" where
  "or_unknown s = (if s = [] then ''unknown'' else s)"

definition getStreamInfo :: "native \<Rightarrow> string \<Rightarrow> bridge \<Rightarrow> stream_status option" where
  "getStreamInfo env streamId st =
     (case map_of (activeStreams st) streamId of
        None \<Rightarrow> None
      | Some info \<Rightarrow>
          Some \<lparr>status_streamId = streamId,
                status_streamKey = streamKey info,
                status_connectionState =
                  (case pc info of None \<Rightarrow> ''unknown'' | Some p \<Rightarrow> or_unknown (pc_connectionState env p)),
                status_iceConnectionState =
                  (case pc info of None \<Rightarrow> ''unknown'' | Some p \<Rightarrow> or_unknown (pc_iceConnectionState env p)),
                hasAudio = (audioTrack info \<noteq> None),
                hasVideo = (videoTrack info \<noteq> None),
                ffmpegRunning = (case ffmpeg info of None \<Rightarrow> None | Some q \<Rightarrow> Some (q \<notin> killed st)),
                status_wrtcAvailable = wrtcAvailable st\<rparr>)"

definition getActiveStreamCount :: "bridge \<Rightarrow> nat" where
  "getActiveStreamCount st = length (activeStreams st)"

subsection \<open>The life of one session as a sequence of events\<close>

text \<open>
  After \<open>handleOffer\<close> has returned, the bridge is driven by the callbacks it attached
  for the session and by the two requests of the HTTP surface. \<open>p\<close> and \<open>q\<close> are the
  peer connection and the process of the session whose callbacks fire. These
  handlers run to their end without an \<open>await\<close> of their own; the clock is that of
  the calls that are suspended.
\<close>

datatype session_event =
    TrackEvent track
  | ConnectionStateChange string
  | FfmpegClose "int option"
  | FfmpegError
  | TrackEnded
  | CleanupRequest
  | RemoteCandidate ice_candidate
  | LateIceCandidate "ice_candidate option"

fun session_step :: "native \<Rightarrow> string \<Rightarrow> handle \<Rightarrow> handle \<Rightarrow> session_event \<Rightarrow> bridge \<Rightarrow> bridge" where
  "session_step env streamId p q (TrackEvent tr) st = ontrack streamId p q tr st"
| "session_step env streamId p q (ConnectionStateChange s) st = onconnectionstatechange env streamId s st"
| "session_step env streamId p q (FfmpegClose code) st = ffmpeg_on_close env streamId code st"
| "session_step env streamId p q FfmpegError st = ffmpeg_on_error env streamId st"
| "session_step env streamId p q TrackEnded st = track_onended env streamId st"
| "session_step env streamId p q CleanupRequest st = cleanupStream env streamId st"
| "session_step env streamId p q (RemoteCandidate c) st = snd (handleIceCandidate env streamId c st)"
| "session_step env streamId p q (LateIceCandidate c) st = pc_onicecandidate streamId p c st"

fun session_run :: "native \<Rightarrow> string \<Rightarrow> handle \<Rightarrow> handle \<Rightarrow> session_event list \<Rightarrow> bridge \<Rightarrow> bridge" where
  "session_run env streamId p q [] st = st"
| "session_run env streamId p q (e # es) st =
     session_run env streamId p q es (session_step env streamId p q e st)"

fun is_sdp_call :: "string \<Rightarrow> effect \<Rightarrow> bool" where
  "is_sdp_call s (CreateSDPForFFmpeg s' _ _) = (s' = s)"
| "is_sdp_call s _ = False"

fun is_spawn :: "effect \<Rightarrow> bool" where
  "is_spawn (Spawn _ _) = True"
| "is_spawn _ = False"

definition sdp_calls :: "string \<Rightarrow> effect list \<Rightarrow> nat" where
  "sdp_calls s es = length (filter (is_sdp_call s) es)"

definition spawn_count :: "effect list \<Rightarrow> nat" where
  "spawn_count es = length (filter is_spawn es)"

fun track_kinds :: "session_event list \<Rightarrow> string list" where
  "track_kinds [] = []"
| "track_kinds (TrackEvent tr # es) = track_kind tr # track_kinds es"
| "track_kinds (_ # es) = track_kinds es"

subsection \<open>Observations on the effects and on a session\<close>

text \<open>The native calls of lines 416-451 for a session, in program order.\<close>

definition release_effects :: "native \<Rightarrow> streamInfo \<Rightarrow> effect list" where
  "release_effects env info =
     (case pc info of None \<Rightarrow> [] | Some p \<Rightarrow> [PcClose p])
     @ (case ffmpeg info of
          None \<Rightarrow> []
        | Some q \<Rightarrow> Kill q SIGTERM #
            (if kill_result env q SIGTERM = KillThrows then [] else [SetTimeoutKill q 5000]))
     @ (case audioTrack info of None \<Rightarrow> [] | Some tr \<Rightarrow> [TrackStop (track_id tr)])
     @ (case videoTrack info of None \<Rightarrow> [] | Some tr \<Rightarrow> [TrackStop (track_id tr)])"

text \<open>
  \<open>sdp_done\<close>: no session is registered under the identifier, or its \<open>sdpCreated\<close>
  flag is set. \<open>has_audio\<close>, \<open>has_video\<close>: the registered session holds a track of
  that kind.
\<close>

definition sdp_done :: "string \<Rightarrow> bridge \<Rightarrow> bool" where
  "sdp_done s st = (case map_of (activeStreams st) s of None \<Rightarrow> True | Some info \<Rightarrow> sdpCreated info)"

definition has_audio :: "string \<Rightarrow> bridge \<Rightarrow> bool" where
  "has_audio s st = (case map_of (activeStreams st) s of None \<Rightarrow> False | Some info \<Rightarrow> audioTrack info \<noteq> None)"

definition has_video :: "string \<Rightarrow> bridge \<Rightarrow> bool" where
  "has_video s st = (case map_of (activeStreams st) s of None \<Rightarrow> False | Some info \<Rightarrow> videoTrack info \<noteq> None)"

fun is_track_event :: "session_event \<Rightarrow> bool" where
  "is_track_event (TrackEvent _) = True"
| "is_track_event _ = False"

section \<open>The signaling server (src/server.js, lines 290-494)\<close>

subsection \<open>Rooms, users and what a handler sends\<close>

text \<open>
  The two module-level maps: \<open>users\<close> from the socket identifier to the record
  written by \<open>join-room\<close>, \<open>rooms\<close> from the room identifier to the array of its
  participants. Both are association lists in insertion order, as \<open>Array.from(users.entries())\<close>
  sees them.
\<close>

record user =
  user_roomId :: string
  user_userId :: string
  user_userType :: string

record participant =
  socketId :: string
  userId :: string
  userType :: string

record server =
  rooms :: "(string \<times> participant list) list"
  users :: "(string \<times> user) list"

datatype message =
    UserJoined string string
  | RoomUsers "participant list"
  | OfferFrom string string
  | AnswerFrom string string
  | IceCandidateFrom string string
  | StreamTypeChanged string string
  | PeerConnectionStateOf string string string string
  | UserLeft string

datatype ack = AckError string | AckSuccess string string

text \<open>
  The calls a handler makes on socket.io, in order: \<open>socket.join\<close> and \<open>socket.leave\<close>
  (socket, room), \<open>socket.to(room).emit\<close> (room, the sending socket, which is left
  out), \<open>socket.emit\<close>, \<open>io.to(socketId).emit\<close>, and the acknowledgement callback.
\<close>

datatype sent =
    SocketJoin string string
  | SocketLeave string string
  | ToRoomExcept string string message
  | ToSelf string message
  | ToSocket string message
  | Callback ack

datatype js_error = TypeError string

subsection \<open>join-room (lines 313-351)\<close>

text \<open>The destructured fields of the payload; a missing field is the empty string, which is falsy too.\<close>

record join_data =
  join_roomId :: string
  join_userId :: string
  join_userType :: string

definition join_accepted :: "join_data \<Rightarrow> bool" where
  "join_accepted d = (join_roomId d \<noteq> [] \<and> join_userId d \<noteq> [] \<and> join_userType d \<noteq> [])"

definition room_list :: "server \<Rightarrow> string \<Rightarrow> participant list" where
  "room_list st r = (case map_of (rooms st) r of None \<Rightarrow> [] | Some ps \<Rightarrow> ps)"

definition on_join_room :: "string \<Rightarrow> join_data \<Rightarrow> bool \<Rightarrow> server \<Rightarrow> sent list \<times> server" where
  "on_join_room sock d has_callback st =
     (if \<not> join_accepted d
      then ((if has_callback then [Callback (AckError ''Missing required fields'')] else []), st)
      else
        (let r = join_roomId d;
             users' = AList.update sock
               \<lparr>user_roomId = r, user_userId = join_userId d, user_userType = join_userType d\<rparr>
               (users st);
             rooms1 = (if map_of (rooms st) r = None then AList.update r [] (rooms st) else rooms st);
             room = (case map_of rooms1 r of None \<Rightarrow> [] | Some ps \<Rightarrow> ps)
                      @ [\<lparr>socketId = sock, userId = join_userId d, userType = join_userType d\<rparr>];
             rooms2 = AList.update r room rooms1;
             existingUsers = filter (\<lambda>u. socketId u \<noteq> sock) room
         in ([SocketJoin sock r,
              ToRoomExcept r sock (UserJoined (join_userId d) (join_userType d)),
              ToSelf sock (RoomUsers existingUsers)]
             @ (if has_callback then [Callback (AckSuccess r (join_userId d))] else []),
             st\<lparr>rooms := rooms2, users := users'\<rparr>)))"

subsection \<open>The relay handlers (lines 354-455)\<close>

text \<open>\<open>Array.from(users.entries()).find(...)\<close>: the first entry with that user and room.\<close>

definition find_target :: "(string \<times> user) list \<Rightarrow> string \<Rightarrow> string \<Rightarrow> (string \<times> user) option" where
  "find_target us targetUserId roomId =
     List.find (\<lambda>(_, u). user_userId u = targetUserId \<and> user_roomId u = roomId) us"

text \<open>
  Every relay handler destructures its payload in the parameter list, before its
  first statement: an event that comes without payload (\<open>None\<close>) makes the handler
  throw a \<open>TypeError\<close>, whoever sent it. The fields of a payload are strings.
\<close>

definition no_payload :: js_error where
  "no_payload = TypeError ''Cannot destructure property of undefined''"

definition on_offer :: "string \<Rightarrow> (string \<times> string \<times> string) option \<Rightarrow> server \<Rightarrow> js_error + sent list" where
  "on_offer sock payload st =
     (case payload of
        None \<Rightarrow> Inl no_payload
      | Some (offer, targetUserId, roomId) \<Rightarrow>
          (case map_of (users st) sock of
             None \<Rightarrow> Inr []
           | Some sender \<Rightarrow>
               (case find_target (users st) targetUserId roomId of
                  Some target \<Rightarrow> Inr [ToSocket (fst target) (OfferFrom offer (user_userId sender))]
                | None \<Rightarrow> Inr [])))"

definition on_answer :: "string \<Rightarrow> (string \<times> string \<times> string) option \<Rightarrow> server \<Rightarrow> js_error + sent list" where
  "on_answer sock payload st =
     (case payload of
        None \<Rightarrow> Inl no_payload
      | Some (ans, targetUserId, roomId) \<Rightarrow>
          (case map_of (users st) sock of
             None \<Rightarrow> Inr []
           | Some sender \<Rightarrow>
               (case find_target (users st) targetUserId roomId of
                  Some target \<Rightarrow> Inr [ToSocket (fst target) (AnswerFrom ans (user_userId sender))]
                | None \<Rightarrow> Inr [])))"

text \<open>
  Lines 398-424. The candidate is relayed as it came. Before that, line 410 reads
  \<open>candidate.candidate\<close> for the console: when the \<open>candidate\<close> field of the payload
  is missing or \<open>null\<close> (\<open>None\<close>) the read throws a \<open>TypeError\<close>, for a
  registered sender whose target was found; for any other value the optional chaining
  of that line does not throw.
\<close>

definition on_ice_candidate ::
  "string \<Rightarrow> (string option \<times> string \<times> string) option \<Rightarrow> server \<Rightarrow> js_error + sent list" where
  "on_ice_candidate sock payload st =
     (case payload of
        None \<Rightarrow> Inl no_payload
      | Some (cand, targetUserId, roomId) \<Rightarrow>
          (case map_of (users st) sock of
             None \<Rightarrow> Inr []
           | Some sender \<Rightarrow>
               (case find_target (users st) targetUserId roomId of
                  Some target \<Rightarrow>
                    (case cand of
                       None \<Rightarrow>
                         Inl (TypeError ''Cannot read properties of undefined (reading candidate)'')
                     | Some c \<Rightarrow>
                         Inr [ToSocket (fst target) (IceCandidateFrom c (user_userId sender))])
                | None \<Rightarrow> Inr [])))"

text \<open>
  Lines 427-432. The argument of \<open>emit\<close> reads \<open>users.get(socket.id).userId\<close> with no
  check: for a socket that is not in \<open>users\<close> the read throws a \<open>TypeError\<close>
  before anything is sent.
\<close>

definition on_stream_type :: "string \<Rightarrow> (string \<times> string) option \<Rightarrow> server \<Rightarrow> js_error + sent list" where
  "on_stream_type sock payload st =
     (case payload of
        None \<Rightarrow> Inl no_payload
      | Some (streamType, roomId) \<Rightarrow>
          (case map_of (users st) sock of
             None \<Rightarrow> Inl (TypeError ''Cannot read properties of undefined (reading userId)'')
           | Some u \<Rightarrow> Inr [ToRoomExcept roomId sock (StreamTypeChanged streamType (user_userId u))]))"

definition on_peer_connection_state ::
  "string \<Rightarrow> (string \<times> string \<times> string \<times> string) option \<Rightarrow> server \<Rightarrow> js_error + sent list" where
  "on_peer_connection_state sock payload st =
     (case payload of
        None \<Rightarrow> Inl no_payload
      | Some (targetUserId, roomId, connectionState, iceConnectionState) \<Rightarrow>
          (case map_of (users st) sock of
             None \<Rightarrow> Inr []
           | Some sender \<Rightarrow>
               (case find_target (users st) targetUserId roomId of
                  Some target \<Rightarrow>
                    Inr [ToSocket (fst target)
                          (PeerConnectionStateOf (user_userId sender) targetUserId
                             connectionState iceConnectionState)]
                | None \<Rightarrow> Inr [])))"

text \<open>
  The five kinds of relayed message and their dispatch: a message with its payload
  fields, an ICE candidate message whose payload lacks the candidate, and an event of
  a kind with no payload at all.
\<close>

datatype relay_kind = OfferKind | AnswerKind | IceCandidateKind | StreamTypeKind | PeerConnectionStateKind

datatype relay_message =
    OfferMsg string string string
  | AnswerMsg string string string
  | IceCandidateMsg string string string
  | StreamTypeMsg string string
  | PeerConnectionStateMsg string string string string
  | IceCandidateMissingMsg string string
  | NoPayload relay_kind

fun relay :: "string \<Rightarrow> relay_message \<Rightarrow> server \<Rightarrow> js_error + sent list" where
  "relay sock (OfferMsg offer targetUserId roomId) st =
     on_offer sock (Some (offer, targetUserId, roomId)) st"
| "relay sock (AnswerMsg ans targetUserId roomId) st =
     on_answer sock (Some (ans, targetUserId, roomId)) st"
| "relay sock (IceCandidateMsg cand targetUserId roomId) st =
     on_ice_candidate sock (Some (Some cand, targetUserId, roomId)) st"
| "relay sock (StreamTypeMsg streamType roomId) st = on_stream_type sock (Some (streamType, roomId)) st"
| "relay sock (PeerConnectionStateMsg targetUserId roomId cs ics) st =
     on_peer_connection_state sock (Some (targetUserId, roomId, cs, ics)) st"
| "relay sock (IceCandidateMissingMsg targetUserId roomId) st =
     on_ice_candidate sock (Some (None, targetUserId, roomId)) st"
| "relay sock (NoPayload OfferKind) st = on_offer sock None st"
| "relay sock (NoPayload AnswerKind) st = on_answer sock None st"
| "relay sock (NoPayload IceCandidateKind) st = on_ice_candidate sock None st"
| "relay sock (NoPayload StreamTypeKind) st = on_stream_type sock None st"
| "relay sock (NoPayload PeerConnectionStateKind) st = on_peer_connection_state sock None st"

subsection \<open>leave-room and disconnect (lines 458-494)\<close>

text \<open>\<open>findIndex\<close> and \<open>splice(index, 1)\<close>: the first entry of the socket is taken out.\<close>

fun remove_socket :: "string \<Rightarrow> participant list \<Rightarrow> participant list" where
  "remove_socket s [] = []"
| "remove_socket s (p # ps) = (if socketId p = s then ps else p # remove_socket s ps)"

definition on_leave_room :: "string \<Rightarrow> string \<Rightarrow> server \<Rightarrow> sent list \<times> server" where
  "on_leave_room sock roomId st =
     (case map_of (users st) sock of
        None \<Rightarrow> ([SocketLeave sock roomId], st)
      | Some u \<Rightarrow>
          (let rooms' = (case map_of (rooms st) roomId of
                           None \<Rightarrow> rooms st
                         | Some room \<Rightarrow> AList.update roomId (remove_socket sock room) (rooms st))
           in ([SocketLeave sock roomId, ToRoomExcept roomId sock (UserLeft (user_userId u))],
               st\<lparr>rooms := rooms', users := AList.delete sock (users st)\<rparr>)))"

definition on_disconnect :: "string \<Rightarrow> server \<Rightarrow> sent list \<times> server" where
  "on_disconnect sock st =
     (case map_of (users st) sock of
        None \<Rightarrow> ([], st)
      | Some u \<Rightarrow>
          (case map_of (rooms st) (user_roomId u) of
             None \<Rightarrow> ([], st\<lparr>users := AList.delete sock (users st)\<rparr>)
           | Some room \<Rightarrow>
               ([ToRoomExcept (user_roomId u) sock (UserLeft (user_userId u))],
                st\<lparr>rooms := AList.update (user_roomId u) (remove_socket sock room) (rooms st),
                   users := AList.delete sock (users st)\<rparr>)))"

subsection \<open>Sequences of join, leave and disconnect\<close>

text \<open>
  The events of a run are those whose handler reaches its body. \<open>join-room\<close> without a
  payload fails at the destructuring of line 314, inside the \<open>try\<close>, and ends in the
  \<open>catch\<close> with neither map touched; \<open>leave-room\<close> without a payload throws from its
  parameter list before \<open>socket.leave\<close>.
\<close>

datatype signaling_event =
    JoinRoom string join_data bool
  | LeaveRoom string string
  | Disconnect string

fun signaling_step :: "signaling_event \<Rightarrow> server \<Rightarrow> server" where
  "signaling_step (JoinRoom sock d cb) st = snd (on_join_room sock d cb st)"
| "signaling_step (LeaveRoom sock r) st = snd (on_leave_room sock r st)"
| "signaling_step (Disconnect sock) st = snd (on_disconnect sock st)"

fun signaling_run :: "signaling_event list \<Rightarrow> server \<Rightarrow> server" where
  "signaling_run [] st = st"
| "signaling_run (e # es) st = signaling_run es (signaling_step e st)"

text \<open>The joins into a room that passed the validation of line 317.\<close>

fun joins_into :: "string \<Rightarrow> signaling_event list \<Rightarrow> nat" where
  "joins_into r [] = 0"
| "joins_into r (JoinRoom sock d cb # es) =
     (if join_accepted d \<and> join_roomId d = r then 1 else 0) + joins_into r es"
| "joins_into r (_ # es) = joins_into r es"

text \<open>
  Whether an event is a leave or a disconnect of a connection that is registered, at
  that moment, as a member of room \<open>r\<close>; and the number of such events along a run.
\<close>

fun departs_from :: "string \<Rightarrow> signaling_event \<Rightarrow> server \<Rightarrow> bool" where
  "departs_from r (JoinRoom sock d cb) st = False"
| "departs_from r (LeaveRoom sock r') st =
     (case map_of (users st) sock of None \<Rightarrow> False | Some u \<Rightarrow> user_roomId u = r)"
| "departs_from r (Disconnect sock) st =
     (case map_of (users st) sock of None \<Rightarrow> False | Some u \<Rightarrow> user_roomId u = r)"

fun departures_from :: "string \<Rightarrow> signaling_event list \<Rightarrow> server \<Rightarrow> nat" where
  "departures_from r [] st = 0"
| "departures_from r (e # es) st =
     (if departs_from r e st then 1 else 0) + departures_from r es (signaling_step e st)"

text \<open>
  The protocol of a client that is in one room at a time: it joins only while it is
  not registered, and the room it names in \<open>leave-room\<close> is the one it joined.
\<close>

fun one_room_event :: "signaling_event \<Rightarrow> server \<Rightarrow> bool" where
  "one_room_event (JoinRoom sock d cb) st = (join_accepted d \<longrightarrow> map_of (users st) sock = None)"
| "one_room_event (LeaveRoom sock r) st =
     (case map_of (users st) sock of None \<Rightarrow> True | Some u \<Rightarrow> user_roomId u = r)"
| "one_room_event (Disconnect sock) st = True"

fun one_room_at_a_time :: "signaling_event list \<Rightarrow> server \<Rightarrow> bool" where
  "one_room_at_a_time [] st = True"
| "one_room_at_a_time (e # es) st =
     (one_room_event e st \<and> one_room_at_a_time es (signaling_step e st))"

text \<open>
  The room lists mirror the user map: a socket occurs in the list of a room once if
  it is registered in that room, and not at all otherwise.
\<close>

definition registered_in :: "server \<Rightarrow> string \<Rightarrow> string \<Rightarrow> bool" where
  "registered_in st sock r =
     (case map_of (users st) sock of None \<Rightarrow> False | Some u \<Rightarrow> user_roomId u = r)"

definition rooms_mirror_users :: "server \<Rightarrow> bool" where
  "rooms_mirror_users st =
     (\<forall>r sock. count_list (map socketId (room_list st r)) sock =
                 (if registered_in st sock r then 1 else 0))"

section \<open>Concrete inputs\<close>

text \<open>
  A bridge with the engine loaded and no session, an engine that settles every call,
  and the scenario of the happy path: the offer for stream \<open>s1\<close> with key
  \<open>key123\<close> is accepted, then an audio and a video track arrive (\<open>bridge1\<close>, whose
  session is \<open>info1\<close>). For the signaling server: the empty server and the join
  requests of two clients.
\<close>

definition bridge0 :: bridge where
  "bridge0 = \<lparr>activeStreams = [], muxRtmpUrl = ''rtmp://global-live.mux.com:5222/app'',
     wrtcAvailable = True, module_wrtcAvailable = True, module_RTCPeerConnection = True,
     module_RTCSessionDescription = True, module_RTCIceCandidate = True,
     next_handle = 0, killed = {}, effects = [], now = 0\<rparr>"

definition native0 :: native where
  "native0 = \<lparr>import_wrtc = Rejected 20, construct_pc_fails = False,
     setRemoteDescription = (\<lambda>_. Fulfilled 5 ()),
     createAnswer = Fulfilled 10 \<lparr>sd_type = ''answer'', sd_sdp = ''v=0''\<rparr>,
     setLocalDescription = Fulfilled 5 (),
     spawn_fails = (\<lambda>_. False),
     ice_before_wait = [], ice_state_at_wait = Gathering, ice_timeline = [],
     kill_result = (\<lambda>_ _. KillDelivered),
     construct_candidate_fails = (\<lambda>_. False),
     addIceCandidate_fails = (\<lambda>_ _. False),
     pc_connectionState = (\<lambda>_. ''new''),
     pc_iceConnectionState = (\<lambda>_. ''new'')\<rparr>"

definition offer0 :: session_description where
  "offer0 = \<lparr>sd_type = ''offer'', sd_sdp = ''v=0''\<rparr>"

definition audio0 :: track where "audio0 = \<lparr>track_id = 2, track_kind = ''audio''\<rparr>"

definition video0 :: track where "video0 = \<lparr>track_id = 3, track_kind = ''video''\<rparr>"

definition bridge1 :: bridge where
  "bridge1 = session_run native0 ''s1'' 0 1 [TrackEvent audio0, TrackEvent video0]
     (snd (handleOffer native0 ''s1'' ''key123'' offer0 bridge0))"

definition info1 :: streamInfo where
  "info1 = \<lparr>pc = Some 0, streamKey = ''key123'', iceCandidates = [],
         answer = \<lparr>sd_type = ''answer'', sd_sdp = ''v=0''\<rparr>, ffmpeg = Some 1,
         audioTrack = Some \<lparr>track_id = 2, track_kind = ''audio''\<rparr>,
         videoTrack = Some \<lparr>track_id = 3, track_kind = ''video''\<rparr>,
         sdpCreated = True\<rparr>"

definition native_failing :: native where
  "native_failing = native0\<lparr>setLocalDescription := Rejected 5\<rparr>"

definition native_hanging :: native where
  "native_hanging = native0\<lparr>createAnswer := Never\<rparr>"

definition key_with_nul :: string where
  "key_with_nul = ''key'' @ [CHR 0x00]"

definition bridge_unloaded :: bridge where
  "bridge_unloaded = bridge0\<lparr>wrtcAvailable := False, module_wrtcAvailable := False,
     module_RTCPeerConnection := False, module_RTCSessionDescription := False,
     module_RTCIceCandidate := False\<rparr>"

definition bridge_no_pc :: bridge where
  "bridge_no_pc = bridge0\<lparr>activeStreams := [(''s2'',
     \<lparr>pc = None, streamKey = ''key123'', iceCandidates = [],
        answer = \<lparr>sd_type = ''answer'', sd_sdp = ''v=0''\<rparr>, ffmpeg = None,
        audioTrack = None, videoTrack = None, sdpCreated = False\<rparr>)]\<rparr>"

definition cand0 :: ice_candidate where
  "cand0 = \<lparr>candidate = ''candidate:1 1 UDP 2122252543 192.168.1.13 50000 typ host'',
     sdpMLineIndex = Some 0, sdpMid = Some ''0''\<rparr>"

definition timeline0 :: "(nat \<times> ice_event) list" where
  "timeline0 = [(40, IceCandidateEvent (Some cand0)),
                (90, IceGatheringStateChange Gathering),
                (300, IceGatheringStateChange Complete),
                (700, IceCandidateEvent None)]"

definition server0 :: server where
  "server0 = \<lparr>rooms = [], users = []\<rparr>"

definition join_A :: join_data where
  "join_A = \<lparr>join_roomId = ''R1'', join_userId = ''A'', join_userType = ''broadcaster''\<rparr>"

definition join_A2 :: join_data where
  "join_A2 = \<lparr>join_roomId = ''R2'', join_userId = ''A'', join_userType = ''broadcaster''\<rparr>"

definition join_B :: join_data where
  "join_B = \<lparr>join_roomId = ''R1'', join_userId = ''B'', join_userType = ''viewer''\<rparr>"

definition join_A3 :: join_data where
  "join_A3 = \<lparr>join_roomId = ''R1'', join_userId = ''A'', join_userType = []\<rparr>"

section \<open>The concrete scenarios, evaluated\<close>

lemma handleOffer_first:
  "handleOffer native0 ''s1'' ''key123'' offer0 bridge0 =
   (Some (Inr \<lparr>res_answer = \<lparr>sd_type = ''answer'', sd_sdp = ''v=0''\<rparr>, res_iceCandidates = []\<rparr>),
    bridge0\<lparr>activeStreams :=
       [(''s1'',
         \<lparr>pc = Some 0, streamKey = ''key123'', iceCandidates = [],
            answer = \<lparr>sd_type = ''answer'', sd_sdp = ''v=0''\<rparr>, ffmpeg = None,
            audioTrack = None, videoTrack = None, sdpCreated = False\<rparr>)],
      next_handle := 2,
      effects :=
        [NewPeerConnection 0, Spawn 1 ''rtmp://global-live.mux.com:5222/app/key123''],
      now := 5020\<rparr>)"
  by (simp add: handleOffer_def bridge0_def native0_def offer0_def waitForIceGathering_def
      setupMediaProcessing_def spawn_throws_def log_effects_def tick_def Let_def)

lemma bridge1_eval:
  "bridge1 = \<lparr>activeStreams =
    [(''s1'',
      \<lparr>pc = Some 0, streamKey = ''key123'', iceCandidates = [],
         answer = \<lparr>sd_type = ''answer'', sd_sdp = ''v=0''\<rparr>, ffmpeg = Some 1,
         audioTrack = Some \<lparr>track_id = 2, track_kind = ''audio''\<rparr>,
         videoTrack = Some \<lparr>track_id = 3, track_kind = ''video''\<rparr>,
         sdpCreated = True\<rparr>)],
    muxRtmpUrl = ''rtmp://global-live.mux.com:5222/app'',
    wrtcAvailable = True, module_wrtcAvailable = True,
    module_RTCPeerConnection = True, module_RTCSessionDescription = True,
    module_RTCIceCandidate = True, next_handle = 2, killed = {},
    effects =
      [NewPeerConnection 0,
       Spawn 1 ''rtmp://global-live.mux.com:5222/app/key123'',
       CreateSDPForFFmpeg ''s1'' 0 1],
    now = 5020\<rparr>"
  by (simp add: bridge1_def handleOffer_first)
    (simp add: bridge0_def ontrack_def audio0_def video0_def createSDPForFFmpeg_def
      log_effects_def Let_def)

lemma handleOffer_second:
  "handleOffer native0 ''s1'' ''key456'' offer0 bridge1 =
   (Some (Inr \<lparr>res_answer = \<lparr>sd_type = ''answer'', sd_sdp = ''v=0''\<rparr>, res_iceCandidates = []\<rparr>),
    bridge1\<lparr>activeStreams :=
       [(''s1'',
         \<lparr>pc = Some 2, streamKey = ''key456'', iceCandidates = [],
            answer = \<lparr>sd_type = ''answer'', sd_sdp = ''v=0''\<rparr>, ffmpeg = None,
            audioTrack = None, videoTrack = None, sdpCreated = False\<rparr>)],
      next_handle := 4,
      effects :=
        [NewPeerConnection 0,
         Spawn 1 ''rtmp://global-live.mux.com:5222/app/key123'',
         CreateSDPForFFmpeg ''s1'' 0 1, NewPeerConnection 2,
         Spawn 3 ''rtmp://global-live.mux.com:5222/app/key456''],
      now := 10040\<rparr>)"
  by (simp add: handleOffer_def bridge1_eval native0_def offer0_def waitForIceGathering_def
      setupMediaProcessing_def spawn_throws_def log_effects_def tick_def Let_def)

lemma handleOffer_native_failing:
  "handleOffer native_failing ''s1'' ''key123'' offer0 bridge0 =
     (Some (Inl (EngineError ''setLocalDescription'')),
      bridge0\<lparr>next_handle := 1, effects := [NewPeerConnection 0], now := 20\<rparr>)"
  by (simp add: handleOffer_def native_failing_def native0_def bridge0_def log_effects_def
      tick_def Let_def)

lemma handleOffer_key_with_nul:
  "handleOffer native0 ''s1'' key_with_nul offer0 bridge0 =
     (Some (Inl (SpawnError (''rtmp://global-live.mux.com:5222/app/key'' @ [CHR 0x00]))),
      bridge0\<lparr>next_handle := 1, effects := [NewPeerConnection 0], now := 5020\<rparr>)"
  by (simp add: handleOffer_def key_with_nul_def native0_def bridge0_def offer0_def
      waitForIceGathering_def setupMediaProcessing_def spawn_throws_def log_effects_def
      tick_def Let_def)

lemma handleOffer_native_hanging:
  "handleOffer native_hanging ''s1'' ''key123'' offer0 bridge0 =
     (None, bridge0\<lparr>next_handle := 1, effects := [NewPeerConnection 0], now := 5\<rparr>)"
  by (simp add: handleOffer_def native_hanging_def native0_def bridge0_def log_effects_def
      tick_def Let_def)

text \<open>
  A candidate that the peer connection of \<open>s1\<close> reports after the call has returned
  is on the array of the session, where \<open>getIceCandidates\<close> reads it; one reported by
  a peer connection whose session is no longer the entry of \<open>s1\<close> is not.
\<close>

lemma late_candidate_on_session:
  "getIceCandidates ''s1'' (snd (handleOffer native0 ''s1'' ''key123'' offer0 bridge0)) = []
   \<and> getIceCandidates ''s1''
        (session_run native0 ''s1'' 0 1 [LateIceCandidate (Some cand0), LateIceCandidate None]
          (snd (handleOffer native0 ''s1'' ''key123'' offer0 bridge0))) = [cand0]
   \<and> getIceCandidates ''s1''
        (session_run native0 ''s1'' 0 1 [LateIceCandidate (Some cand0)]
          (snd (handleOffer native0 ''s1'' ''key456'' offer0 bridge1))) = []"
  by (simp add: handleOffer_first handleOffer_second)
    (simp add: getIceCandidates_def pc_onicecandidate_def onicecandidate_def bridge0_def
      bridge1_eval)

section \<open>Properties of cleanupStream\<close>

lemma activeStreams_log_effects [simp]:
  "activeStreams (log_effects es st) = activeStreams st"
  by (simp add: log_effects_def)

lemma effects_log_effects [simp]:
  "effects (log_effects es st) = effects st @ es"
  by (simp add: log_effects_def)

lemma activeStreams_cleanup_release [simp]:
  "activeStreams (cleanup_release env info st) = activeStreams st"
  by (simp add: cleanup_release_def cleanup_stop_track_def cleanup_kill_ffmpeg_def
      cleanup_close_pc_def split: option.splits kill_outcome.splits)

lemma cleaned_count_append [simp]:
  "cleaned_count s (xs @ ys) = cleaned_count s xs + cleaned_count s ys"
  by (simp add: cleaned_count_def)

lemma cleaned_count_cleanup_release [simp]:
  "cleaned_count s (effects (cleanup_release env info st)) = cleaned_count s (effects st)"
  by (simp add: cleanup_release_def cleanup_stop_track_def cleanup_kill_ffmpeg_def
      cleanup_close_pc_def cleaned_count_def split: option.splits kill_outcome.splits)

lemma cleanupStream_absent:
  "map_of (activeStreams st) streamId = None \<Longrightarrow> cleanupStream env streamId st = st"
  by (simp add: cleanupStream_def)

lemma cleanupStream_removes:
  "map_of (activeStreams (cleanupStream env streamId st)) streamId = None"
  by (simp add: cleanupStream_def Let_def AList.delete_conv' split: option.splits)

lemma cleaned_count_cleanupStream:
  "cleaned_count streamId (effects (cleanupStream env streamId st)) =
     cleaned_count streamId (effects st) +
       (if map_of (activeStreams st) streamId = None then 0 else 1)"
  by (auto simp add: cleanupStream_def Let_def cleaned_count_def split: option.splits)
    (simp add: cleaned_count_def [symmetric])

text \<open>
  C6. \<open>cleanupStream\<close> is idempotent. With no session under the stream identifier it
  returns the bridge as it was: no call on a native object, no notification. After any
  call the identifier is absent from the map, so a second call in immediate succession
  (whatever the native calls would answer) changes nothing, and the two calls together
  emit \<open>stream-cleaned\<close> once when a session existed and never otherwise.
\<close>

theorem cleanupStream_idempotent:
  "(map_of (activeStreams st) streamId = None \<longrightarrow> cleanupStream env streamId st = st)
   \<and> map_of (activeStreams (cleanupStream env streamId st)) streamId = None
   \<and> cleanupStream env' streamId (cleanupStream env streamId st) = cleanupStream env streamId st
   \<and> cleaned_count streamId (effects (cleanupStream env' streamId (cleanupStream env streamId st))) =
       cleaned_count streamId (effects st) +
         (if map_of (activeStreams st) streamId = None then 0 else 1)"
proof -
  have gone: "map_of (activeStreams (cleanupStream env streamId st)) streamId = None"
    by (rule cleanupStream_removes)
  have twice: "cleanupStream env' streamId (cleanupStream env streamId st) = cleanupStream env streamId st"
    using gone by (rule cleanupStream_absent)
  show ?thesis
    using gone twice by (simp add: cleanupStream_absent cleaned_count_cleanupStream)
qed

text \<open>
  C6 at concrete inputs: a bridge without sessions, and the session of \<open>bridge1\<close>
  cleaned up twice in a row.
\<close>

theorem cleanupStream_idempotent_witness:
  "map_of (activeStreams bridge0) ''s1'' = None
   \<and> cleanupStream native0 ''s1'' bridge0 = bridge0
   \<and> map_of (activeStreams bridge1) ''s1'' \<noteq> None
   \<and> cleaned_count ''s1'' (effects bridge1) = 0
   \<and> cleaned_count ''s1''
        (effects (cleanupStream native0 ''s1'' (cleanupStream native0 ''s1'' bridge1))) = 1"
proof -
  have absent: "map_of (activeStreams bridge0) ''s1'' = None"
    by (simp add: bridge0_def)
  have present: "map_of (activeStreams bridge1) ''s1'' \<noteq> None"
    by (simp add: bridge1_eval)
  have none_yet: "cleaned_count ''s1'' (effects bridge1) = 0"
    by (simp add: bridge1_eval cleaned_count_def)
  from cleanupStream_idempotent [of bridge0 "''s1''" native0 native0] absent
  have noop: "cleanupStream native0 ''s1'' bridge0 = bridge0"
    by blast
  from cleanupStream_idempotent [of bridge1 "''s1''" native0 native0]
  have "cleaned_count ''s1''
        (effects (cleanupStream native0 ''s1'' (cleanupStream native0 ''s1'' bridge1))) =
      cleaned_count ''s1'' (effects bridge1) +
        (if map_of (activeStreams bridge1) ''s1'' = None then 0 else 1)"
    by blast
  with present none_yet have once: "cleaned_count ''s1''
        (effects (cleanupStream native0 ''s1'' (cleanupStream native0 ''s1'' bridge1))) = 1"
    by simp
  show ?thesis
    using absent noop present none_yet once by blast
qed

section \<open>Properties of handleOffer, the exit handler and handleIceCandidate\<close>

lemma loadWrtc_None: "(loadWrtc env st = None) = (import_wrtc env = Never)"
  by (simp add: loadWrtc_def split: promise.splits)

lemma loadWrtc_Some:
  "loadWrtc env st = Some l \<Longrightarrow>
     activeStreams l = activeStreams st \<and> effects l = effects st
     \<and> next_handle l = next_handle st \<and> muxRtmpUrl l = muxRtmpUrl st
     \<and> now l = now st + settle_time (import_wrtc env)"
  by (auto simp add: loadWrtc_def assign_wrtc_def tick_def split: promise.splits option.splits if_splits)

text \<open>Whatever the outcome short of a returned answer, the map is as it was.\<close>

lemma handleOffer_not_Inr_activeStreams:
  assumes "handleOffer env streamId key offer st = (res, st')"
    and "\<forall>r. res \<noteq> Some (Inr r)"
  shows "activeStreams st' = activeStreams st"
  using assms
  by (auto simp add: handleOffer_def Let_def tick_def log_effects_def
      split: if_splits option.splits promise.splits sum.splits dest!: loadWrtc_Some)

text \<open>
  C10. \<open>handleOffer\<close> leaves the registry alone when it fails. For a stream identifier
  that is not in the map, if the call throws (the engine is not available, the
  constructor or a negotiation step fails, or \<open>spawn\<close> throws inside
  \<open>setupMediaProcessing\<close>), the map is the same list as before: no session is
  registered, \<open>getStreamInfo\<close> of the identifier is \<open>null\<close>, and
  \<open>getActiveStreamCount\<close> is unchanged.
\<close>

theorem handleOffer_failure_keeps_registry:
  assumes "map_of (activeStreams st) streamId = None"
    and "handleOffer env streamId key offer st = (Some (Inl err), st')"
  shows "activeStreams st' = activeStreams st
    \<and> map_of (activeStreams st') streamId = None
    \<and> getStreamInfo env' streamId st' = None
    \<and> getActiveStreamCount st' = getActiveStreamCount st"
proof -
  have same: "activeStreams st' = activeStreams st"
    using assms(2) by (rule handleOffer_not_Inr_activeStreams) simp
  then show ?thesis
    using assms(1) by (simp add: getStreamInfo_def getActiveStreamCount_def)
qed

text \<open>
  C10 at concrete inputs: \<open>setLocalDescription\<close> is rejected after the peer connection
  was created; and the stream key holds a NUL byte, so that \<open>spawn\<close> throws after the
  wait.
\<close>

theorem handleOffer_failure_keeps_registry_witness:
  "map_of (activeStreams bridge0) ''s1'' = None
   \<and> fst (handleOffer native_failing ''s1'' ''key123'' offer0 bridge0) =
       Some (Inl (EngineError ''setLocalDescription''))
   \<and> getStreamInfo native0 ''s1'' (snd (handleOffer native_failing ''s1'' ''key123'' offer0 bridge0)) = None
   \<and> getActiveStreamCount (snd (handleOffer native_failing ''s1'' ''key123'' offer0 bridge0)) = 0
   \<and> fst (handleOffer native0 ''s1'' key_with_nul offer0 bridge0) =
       Some (Inl (SpawnError (''rtmp://global-live.mux.com:5222/app/key'' @ [CHR 0x00])))
   \<and> getStreamInfo native0 ''s1'' (snd (handleOffer native0 ''s1'' key_with_nul offer0 bridge0)) = None
   \<and> getActiveStreamCount (snd (handleOffer native0 ''s1'' key_with_nul offer0 bridge0)) = 0"
proof -
  have absent: "map_of (activeStreams bridge0) ''s1'' = None"
    and count0: "getActiveStreamCount bridge0 = 0"
    by (simp_all add: bridge0_def getActiveStreamCount_def)
  have f1: "fst (handleOffer native_failing ''s1'' ''key123'' offer0 bridge0) =
       Some (Inl (EngineError ''setLocalDescription''))"
    by (simp add: handleOffer_native_failing)
  have f2: "fst (handleOffer native0 ''s1'' key_with_nul offer0 bridge0) =
       Some (Inl (SpawnError (''rtmp://global-live.mux.com:5222/app/key'' @ [CHR 0x00])))"
    by (simp add: handleOffer_key_with_nul)
  have r1: "handleOffer native_failing ''s1'' ''key123'' offer0 bridge0 =
      (Some (Inl (EngineError ''setLocalDescription'')),
       snd (handleOffer native_failing ''s1'' ''key123'' offer0 bridge0))"
    using f1 by (simp add: prod_eq_iff)
  have r2: "handleOffer native0 ''s1'' key_with_nul offer0 bridge0 =
      (Some (Inl (SpawnError (''rtmp://global-live.mux.com:5222/app/key'' @ [CHR 0x00]))),
       snd (handleOffer native0 ''s1'' key_with_nul offer0 bridge0))"
    using f2 by (simp add: prod_eq_iff)
  show ?thesis
    using absent count0 f1 f2
      handleOffer_failure_keeps_registry [OF absent r1, of native0]
      handleOffer_failure_keeps_registry [OF absent r2, of native0]
    by simp
qed

text \<open>
  C8. When the FFmpeg process of a session closes with an exit code that is neither 0
  nor \<open>null\<close>, the handler runs \<open>cleanupStream\<close> for the stream identifier, and after it
  the registry holds no session under that identifier. With exit code 0 or \<open>null\<close> the
  handler changes nothing.
\<close>

theorem ffmpeg_exit_cleanup:
  "(code \<noteq> Some 0 \<and> code \<noteq> None \<longrightarrow>
      ffmpeg_on_close env streamId code st = cleanupStream env streamId st
      \<and> map_of (activeStreams (ffmpeg_on_close env streamId code st)) streamId = None)
   \<and> (code = Some 0 \<or> code = None \<longrightarrow> ffmpeg_on_close env streamId code st = st)"
  by (auto simp add: ffmpeg_on_close_def cleanupStream_removes)

text \<open>C8 at a concrete input: the session of \<open>bridge1\<close> and the exit codes 1, 0 and \<open>null\<close>.\<close>

theorem ffmpeg_exit_cleanup_witness:
  "Some (1::int) \<noteq> Some 0 \<and> Some (1::int) \<noteq> None
   \<and> map_of (activeStreams bridge1) ''s1'' \<noteq> None
   \<and> map_of (activeStreams (ffmpeg_on_close native0 ''s1'' (Some 1) bridge1)) ''s1'' = None
   \<and> ffmpeg_on_close native0 ''s1'' (Some 0) bridge1 = bridge1
   \<and> ffmpeg_on_close native0 ''s1'' None bridge1 = bridge1"
proof -
  have present: "map_of (activeStreams bridge1) ''s1'' \<noteq> None"
    by (simp add: bridge1_eval)
  show ?thesis
    using present ffmpeg_exit_cleanup [of "Some 1" native0 "''s1''" bridge1]
      ffmpeg_exit_cleanup [of "Some 0" native0 "''s1''" bridge1]
      ffmpeg_exit_cleanup [of None native0 "''s1''" bridge1]
    by (simp add: cleanupStream_removes)
qed

text \<open>
  C9. \<open>handleIceCandidate\<close> returns \<open>false\<close>, changing nothing, when no session exists
  for the stream identifier, when the session has no peer connection, or when the
  engine is not available. With a session, a peer connection and the engine present,
  and both native calls succeeding, the candidate is added to the peer connection
  and the result is \<open>true\<close>. The result is a boolean in every case: the function
  never throws.
\<close>

theorem handleIceCandidate_result:
  "(map_of (activeStreams st) streamId = None \<longrightarrow>
      handleIceCandidate env streamId cand st = (False, st))
   \<and> (\<forall>info. map_of (activeStreams st) streamId = Some info \<and> pc info = None \<longrightarrow>
      handleIceCandidate env streamId cand st = (False, st))
   \<and> (\<not> wrtcAvailable st \<longrightarrow> handleIceCandidate env streamId cand st = (False, st))
   \<and> (\<forall>info p. map_of (activeStreams st) streamId = Some info \<and> pc info = Some p
        \<and> wrtcAvailable st \<and> module_RTCIceCandidate st
        \<and> \<not> construct_candidate_fails env cand \<and> \<not> addIceCandidate_fails env p cand \<longrightarrow>
      handleIceCandidate env streamId cand st = (True, log_effects [AddedIceCandidate p cand] st))"
  by (auto simp add: handleIceCandidate_def split: option.splits)

text \<open>C9 at concrete inputs, one for each of the four cases.\<close>

theorem handleIceCandidate_result_witness:
  "map_of (activeStreams bridge0) ''s1'' = None
   \<and> handleIceCandidate native0 ''s1'' cand0 bridge0 = (False, bridge0)
   \<and> handleIceCandidate native0 ''s2'' cand0 bridge_no_pc = (False, bridge_no_pc)
   \<and> \<not> wrtcAvailable (bridge1\<lparr>wrtcAvailable := False\<rparr>)
   \<and> handleIceCandidate native0 ''s1'' cand0 (bridge1\<lparr>wrtcAvailable := False\<rparr>) =
        (False, bridge1\<lparr>wrtcAvailable := False\<rparr>)
   \<and> handleIceCandidate native0 ''s1'' cand0 bridge1 =
        (True, log_effects [AddedIceCandidate 0 cand0] bridge1)"
proof -
  have absent: "map_of (activeStreams bridge0) ''s1'' = None"
    by (simp add: bridge0_def)
  have no_pc: "\<exists>info. map_of (activeStreams bridge_no_pc) ''s2'' = Some info \<and> pc info = None"
    by (simp add: bridge_no_pc_def bridge0_def)
  have live: "\<exists>info. map_of (activeStreams bridge1) ''s1'' = Some info \<and> pc info = Some 0"
    by (simp add: bridge1_eval)
  have cap: "wrtcAvailable bridge1 \<and> module_RTCIceCandidate bridge1
      \<and> \<not> construct_candidate_fails native0 cand0 \<and> \<not> addIceCandidate_fails native0 0 cand0"
    by (simp add: bridge1_eval native0_def)
  show ?thesis
    using absent no_pc live cap
      handleIceCandidate_result [of bridge0 "''s1''" native0 cand0]
      handleIceCandidate_result [of bridge_no_pc "''s2''" native0 cand0]
      handleIceCandidate_result [of "bridge1\<lparr>wrtcAvailable := False\<rparr>" "''s1''" native0 cand0]
      handleIceCandidate_result [of bridge1 "''s1''" native0 cand0]
    by auto
qed

section \<open>The bounded wait\<close>

lemma wait_pending_le: "fst (wait_pending timeout evs arr) \<le> timeout"
  by (induction timeout evs arr rule: wait_pending.induct) (auto split: ice_event.splits)

lemma wait_pending_cases:
  "fst (wait_pending timeout evs arr) = timeout
   \<or> (fst (wait_pending timeout evs arr), IceGatheringStateChange Complete) \<in> set evs"
  by (induction timeout evs arr rule: wait_pending.induct) (auto split: ice_event.splits)

lemma wait_pending_first_complete:
  "\<lbrakk>\<forall>x\<in>set pre. fst x < timeout \<and> snd x \<noteq> IceGatheringStateChange Complete; t < timeout\<rbrakk>
   \<Longrightarrow> fst (wait_pending timeout (pre @ (t, IceGatheringStateChange Complete) # rest) arr) = t"
proof (induction pre arbitrary: arr)
  case Nil
  then show ?case by simp
next
  case (Cons x pre)
  obtain t' e where x: "x = (t', e)" by (cases x)
  from Cons.prems x have "t' < timeout" and "e \<noteq> IceGatheringStateChange Complete"
    by auto
  with Cons x show ?case
    by (cases e) auto
qed

lemma wait_pending_never_complete:
  "\<forall>x\<in>set evs. snd x \<noteq> IceGatheringStateChange Complete
   \<Longrightarrow> fst (wait_pending timeout evs arr) = timeout"
  by (induction timeout evs arr rule: wait_pending.induct) (auto split: ice_event.splits)

text \<open>
  C7. The wait for ICE gathering never blocks: for every gathering state at the start
  and every sequence of ICE events, none at all included, the promise resolves, and no
  later than the timeout; the wait made by \<open>handleOffer\<close> resolves within 5000 ms.
  It resolves as soon as one of the two happens: at once when gathering is already
  complete, at the time of the first change to \<open>complete\<close> when that comes before the
  timeout, and at the timeout when no such change comes.
\<close>

lemma waitForIceGathering_resolves:
  "fst (waitForIceGathering s0 evs timeout arr) \<le> timeout
   \<and> (s0 = Complete \<longrightarrow> fst (waitForIceGathering s0 evs timeout arr) = 0)
   \<and> (s0 \<noteq> Complete \<and> t < timeout
        \<and> (\<forall>x\<in>set pre. fst x < timeout \<and> snd x \<noteq> IceGatheringStateChange Complete) \<longrightarrow>
      fst (waitForIceGathering s0 (pre @ (t, IceGatheringStateChange Complete) # rest) timeout arr) = t)
   \<and> (s0 \<noteq> Complete \<and> (\<forall>x\<in>set evs. snd x \<noteq> IceGatheringStateChange Complete) \<longrightarrow>
      fst (waitForIceGathering s0 evs timeout arr) = timeout)"
  by (simp add: waitForIceGathering_def wait_pending_le wait_pending_first_complete
      wait_pending_never_complete)

text \<open>What a call of \<open>handleOffer\<close> that returned an answer went through.\<close>

lemma handleOffer_Inr:
  assumes "handleOffer env streamId key offer st = (Some (Inr r), st')"
  shows "\<exists>ans. createAnswer env = Fulfilled (settle_time (createAnswer env)) ans
     \<and> r = \<lparr>res_answer = \<lparr>sd_type = sd_type ans, sd_sdp = sd_sdp ans\<rparr>,
            res_iceCandidates = snd (waitForIceGathering (ice_state_at_wait env)
              (ice_timeline env) 5000 (ice_before_wait env))\<rparr>
     \<and> effects st' = effects st @ [NewPeerConnection (next_handle st),
          Spawn (Suc (next_handle st)) (muxRtmpUrl st @ ''/'' @ key)]
     \<and> activeStreams st' = AList.update streamId
          \<lparr>pc = Some (next_handle st), streamKey = key,
            iceCandidates = snd (waitForIceGathering (ice_state_at_wait env)
              (ice_timeline env) 5000 (ice_before_wait env)),
            answer = \<lparr>sd_type = sd_type ans, sd_sdp = sd_sdp ans\<rparr>, ffmpeg = None,
            audioTrack = None, videoTrack = None, sdpCreated = False\<rparr> (activeStreams st)
     \<and> now st' = now st + (if wrtcAvailable st then 0 else settle_time (import_wrtc env))
          + settle_time (setRemoteDescription env offer) + settle_time (createAnswer env)
          + settle_time (setLocalDescription env)
          + fst (waitForIceGathering (ice_state_at_wait env) (ice_timeline env) 5000
              (ice_before_wait env))"
  using assms
  by (auto simp add: handleOffer_def Let_def setupMediaProcessing_def tick_def log_effects_def
      split: if_splits option.splits promise.splits sum.splits dest!: loadWrtc_Some)

lemma handleOffer_returns:
  assumes "import_wrtc env \<noteq> Never" and "setRemoteDescription env offer \<noteq> Never"
    and "createAnswer env \<noteq> Never" and "setLocalDescription env \<noteq> Never"
  shows "fst (handleOffer env streamId key offer st) \<noteq> None"
  using assms
  by (auto simp add: handleOffer_def Let_def loadWrtc_None
      split: option.splits promise.splits sum.splits)

lemma handleOffer_elapsed:
  assumes "handleOffer env streamId key offer st = (Some res, st')"
  shows "now st' \<le> now st + settle_time (import_wrtc env)
      + settle_time (setRemoteDescription env offer) + settle_time (createAnswer env)
      + settle_time (setLocalDescription env)
      + fst (waitForIceGathering (ice_state_at_wait env) (ice_timeline env) 5000
          (ice_before_wait env))"
  using assms
  by (auto simp add: handleOffer_def Let_def setupMediaProcessing_def tick_def log_effects_def
      split: if_splits option.splits promise.splits sum.splits dest!: loadWrtc_Some)

text \<open>
  C7 as stated fails. An engine whose \<open>createAnswer\<close> never settles: the call stays
  suspended at line 185 for good and never returns, whatever the ICE events are.
\<close>

theorem handleOffer_unbounded_counterexample:
  "createAnswer native_hanging = Never
   \<and> handleOffer native_hanging ''s1'' ''key123'' offer0 bridge0 =
       (None, bridge0\<lparr>next_handle := 1, effects := [NewPeerConnection 0], now := 5\<rparr>)"
  by (simp add: handleOffer_native_hanging) (simp add: native_hanging_def)

text \<open>
  C7, amended. \<open>handleOffer\<close> bounds the wait for ICE gathering and nothing else. It
  returns whenever the engine promises it awaits settle: the import of \<open>wrtc\<close>,
  \<open>setRemoteDescription\<close>, \<open>createAnswer\<close> and \<open>setLocalDescription\<close>. When it
  returns, by an answer or by a throw, no more than 5000 ms have passed beyond the time
  those promises took; when it returns an answer, the time passed is exactly theirs
  plus that of the wait, and the candidates returned are those gathered when the wait
  resolved. The wait itself, for every gathering state at its start and every sequence
  of ICE events, none at all included, resolves no later than the timeout and as soon
  as one of the two happens: at once when gathering is already complete, at the first
  change to \<open>complete\<close> when that comes before the timeout, and at the timeout when no
  such change comes.
\<close>

theorem handleOffer_returns_after_bounded_wait:
  "(import_wrtc env \<noteq> Never \<and> setRemoteDescription env offer \<noteq> Never
      \<and> createAnswer env \<noteq> Never \<and> setLocalDescription env \<noteq> Never \<longrightarrow>
      fst (handleOffer env streamId key offer st) \<noteq> None)
   \<and> (\<forall>res st'. handleOffer env streamId key offer st = (Some res, st') \<longrightarrow>
        now st' \<le> now st + settle_time (import_wrtc env)
          + settle_time (setRemoteDescription env offer) + settle_time (createAnswer env)
          + settle_time (setLocalDescription env) + 5000)
   \<and> (\<forall>r st'. handleOffer env streamId key offer st = (Some (Inr r), st') \<longrightarrow>
        now st' = now st + (if wrtcAvailable st then 0 else settle_time (import_wrtc env))
          + settle_time (setRemoteDescription env offer) + settle_time (createAnswer env)
          + settle_time (setLocalDescription env)
          + fst (waitForIceGathering (ice_state_at_wait env) (ice_timeline env) 5000
              (ice_before_wait env))
        \<and> res_iceCandidates r =
            snd (waitForIceGathering (ice_state_at_wait env) (ice_timeline env) 5000
              (ice_before_wait env)))
   \<and> fst (waitForIceGathering g evs timeout arr) \<le> timeout
   \<and> (g = Complete \<longrightarrow> fst (waitForIceGathering g evs timeout arr) = 0)
   \<and> (g \<noteq> Complete \<and> t < timeout
        \<and> (\<forall>x\<in>set pre. fst x < timeout \<and> snd x \<noteq> IceGatheringStateChange Complete) \<longrightarrow>
      fst (waitForIceGathering g (pre @ (t, IceGatheringStateChange Complete) # rest) timeout arr) = t)
   \<and> (g \<noteq> Complete \<and> (\<forall>x\<in>set evs. snd x \<noteq> IceGatheringStateChange Complete) \<longrightarrow>
      fst (waitForIceGathering g evs timeout arr) = timeout)"
proof -
  have returns: "import_wrtc env \<noteq> Never \<and> setRemoteDescription env offer \<noteq> Never
      \<and> createAnswer env \<noteq> Never \<and> setLocalDescription env \<noteq> Never \<longrightarrow>
      fst (handleOffer env streamId key offer st) \<noteq> None"
    using handleOffer_returns [of env offer streamId key st] by blast
  have wait5000: "fst (waitForIceGathering (ice_state_at_wait env) (ice_timeline env) 5000
      (ice_before_wait env)) \<le> 5000"
    by (simp add: waitForIceGathering_def wait_pending_le)
  have bound: "\<forall>res st'. handleOffer env streamId key offer st = (Some res, st') \<longrightarrow>
        now st' \<le> now st + settle_time (import_wrtc env)
          + settle_time (setRemoteDescription env offer) + settle_time (createAnswer env)
          + settle_time (setLocalDescription env) + 5000"
  proof (intro allI impI)
    fix res st'
    assume "handleOffer env streamId key offer st = (Some res, st')"
    from handleOffer_elapsed [OF this] wait5000 show "now st' \<le> now st + settle_time (import_wrtc env)
          + settle_time (setRemoteDescription env offer) + settle_time (createAnswer env)
          + settle_time (setLocalDescription env) + 5000"
      by linarith
  qed
  have exact: "\<forall>r st'. handleOffer env streamId key offer st = (Some (Inr r), st') \<longrightarrow>
        now st' = now st + (if wrtcAvailable st then 0 else settle_time (import_wrtc env))
          + settle_time (setRemoteDescription env offer) + settle_time (createAnswer env)
          + settle_time (setLocalDescription env)
          + fst (waitForIceGathering (ice_state_at_wait env) (ice_timeline env) 5000
              (ice_before_wait env))
        \<and> res_iceCandidates r =
            snd (waitForIceGathering (ice_state_at_wait env) (ice_timeline env) 5000
              (ice_before_wait env))"
  proof (intro allI impI)
    fix r st'
    assume "handleOffer env streamId key offer st = (Some (Inr r), st')"
    from handleOffer_Inr [OF this] show "now st' = now st + (if wrtcAvailable st then 0 else settle_time (import_wrtc env))
          + settle_time (setRemoteDescription env offer) + settle_time (createAnswer env)
          + settle_time (setLocalDescription env)
          + fst (waitForIceGathering (ice_state_at_wait env) (ice_timeline env) 5000
              (ice_before_wait env))
        \<and> res_iceCandidates r =
            snd (waitForIceGathering (ice_state_at_wait env) (ice_timeline env) 5000
              (ice_before_wait env))"
      by auto
  qed
  show ?thesis
    using returns bound exact waitForIceGathering_resolves [of g evs timeout arr t pre rest]
    by blast
qed

text \<open>
  C7, amended, at concrete inputs. The first offer for \<open>s1\<close>, with an engine that
  settles its three calls after 5, 10 and 5 ms and reports no ICE event: the call
  returns, 5020 ms after it started. A bridge that has to load the engine first, whose
  import is rejected after 20 ms: the call throws at 20 ms. And the wait on the timeline
  of \<open>timeline0\<close>: it resolves at 300 ms, with the candidate of 40 ms gathered, at
  once when gathering was complete before, and at the timeout when the change to
  \<open>complete\<close> is left out.
\<close>

theorem handleOffer_returns_after_bounded_wait_witness:
  "import_wrtc native0 \<noteq> Never \<and> setRemoteDescription native0 offer0 \<noteq> Never
   \<and> createAnswer native0 \<noteq> Never \<and> setLocalDescription native0 \<noteq> Never
   \<and> fst (handleOffer native0 ''s1'' ''key123'' offer0 bridge0) \<noteq> None
   \<and> now bridge0 = 0
   \<and> now (snd (handleOffer native0 ''s1'' ''key123'' offer0 bridge0)) = 5020
   \<and> fst (handleOffer native0 ''s1'' ''key123'' offer0 bridge_unloaded) = Some (Inl WrtcNotAvailable)
   \<and> now (snd (handleOffer native0 ''s1'' ''key123'' offer0 bridge_unloaded)) \<le> 5040
   \<and> timeline0 = [(40, IceCandidateEvent (Some cand0)), (90, IceGatheringStateChange Gathering)]
        @ (300, IceGatheringStateChange Complete) # [(700, IceCandidateEvent None)]
   \<and> waitForIceGathering Gathering timeline0 5000 [] = (300, [cand0])
   \<and> fst (waitForIceGathering Complete timeline0 5000 []) = 0
   \<and> fst (waitForIceGathering Gathering
        [(40, IceCandidateEvent (Some cand0)), (90, IceGatheringStateChange Gathering)] 5000 []) = 5000"
proof -
  let ?pre = "[(40::nat, IceCandidateEvent (Some cand0)), (90, IceGatheringStateChange Gathering)]"
  let ?rest = "[(700::nat, IceCandidateEvent None)]"
  have settle: "import_wrtc native0 \<noteq> Never \<and> setRemoteDescription native0 offer0 \<noteq> Never
      \<and> createAnswer native0 \<noteq> Never \<and> setLocalDescription native0 \<noteq> Never"
    by (simp add: native0_def)
  have start: "now bridge0 = 0" "wrtcAvailable bridge0" "now bridge_unloaded = 0"
    by (simp_all add: bridge0_def bridge_unloaded_def)
  have times: "settle_time (import_wrtc native0) = 20"
    "settle_time (setRemoteDescription native0 offer0) = 5"
    "settle_time (createAnswer native0) = 10" "settle_time (setLocalDescription native0) = 5"
    "ice_state_at_wait native0 = Gathering" "ice_timeline native0 = []"
    "ice_before_wait native0 = []"
    by (simp_all add: native0_def)
  have run: "handleOffer native0 ''s1'' ''key123'' offer0 bridge0 =
      (Some (Inr \<lparr>res_answer = \<lparr>sd_type = ''answer'', sd_sdp = ''v=0''\<rparr>, res_iceCandidates = []\<rparr>),
       snd (handleOffer native0 ''s1'' ''key123'' offer0 bridge0))"
    by (simp add: handleOffer_first)
  have thrown: "fst (handleOffer native0 ''s1'' ''key123'' offer0 bridge_unloaded) =
      Some (Inl WrtcNotAvailable)"
    by (simp add: handleOffer_def loadWrtc_def bridge_unloaded_def bridge0_def native0_def tick_def)
  then have run2: "handleOffer native0 ''s1'' ''key123'' offer0 bridge_unloaded =
      (Some (Inl WrtcNotAvailable), snd (handleOffer native0 ''s1'' ''key123'' offer0 bridge_unloaded))"
    by (simp add: prod_eq_iff)
  have split: "timeline0 = ?pre @ (300, IceGatheringStateChange Complete) # ?rest"
    by (simp add: timeline0_def)
  have early: "\<forall>x\<in>set ?pre. fst x < (5000::nat) \<and> snd x \<noteq> IceGatheringStateChange Complete"
    by simp
  note first = handleOffer_returns_after_bounded_wait [where env = native0 and offer = offer0
      and streamId = "''s1''" and key = "''key123''" and st = bridge0 and g = Gathering
      and evs = "[]" and timeout = 5000 and arr = "[]" and t = 300 and pre = ?pre and rest = ?rest]
  note unloaded = handleOffer_returns_after_bounded_wait [where env = native0 and offer = offer0
      and streamId = "''s1''" and key = "''key123''" and st = bridge_unloaded and g = Complete
      and evs = timeline0 and timeout = 5000 and arr = "[]" and t = 300 and pre = ?pre and rest = ?rest]
  note open_end = handleOffer_returns_after_bounded_wait [where env = native0 and offer = offer0
      and streamId = "''s1''" and key = "''key123''" and st = bridge0 and g = Gathering
      and evs = ?pre and timeout = 5000 and arr = "[]" and t = 300 and pre = ?pre and rest = ?rest]
  from first settle have returns: "fst (handleOffer native0 ''s1'' ''key123'' offer0 bridge0) \<noteq> None"
    by blast
  from first have idle: "fst (waitForIceGathering Gathering [] 5000 []) = 5000"
    by simp
  from first run have "now (snd (handleOffer native0 ''s1'' ''key123'' offer0 bridge0)) =
      now bridge0 + (if wrtcAvailable bridge0 then 0 else settle_time (import_wrtc native0))
        + settle_time (setRemoteDescription native0 offer0) + settle_time (createAnswer native0)
        + settle_time (setLocalDescription native0)
        + fst (waitForIceGathering (ice_state_at_wait native0) (ice_timeline native0) 5000
            (ice_before_wait native0))"
    by blast
  with start times idle
  have exact: "now (snd (handleOffer native0 ''s1'' ''key123'' offer0 bridge0)) = 5020"
    by simp
  from unloaded run2 have "now (snd (handleOffer native0 ''s1'' ''key123'' offer0 bridge_unloaded)) \<le>
      now bridge_unloaded + settle_time (import_wrtc native0)
        + settle_time (setRemoteDescription native0 offer0) + settle_time (createAnswer native0)
        + settle_time (setLocalDescription native0) + 5000"
    by blast
  with start times
  have bound: "now (snd (handleOffer native0 ''s1'' ''key123'' offer0 bridge_unloaded)) \<le> 5040"
    by simp
  from first early
  have "fst (waitForIceGathering Gathering (?pre @ (300, IceGatheringStateChange Complete) # ?rest)
      5000 []) = 300"
    by simp
  then have at300: "fst (waitForIceGathering Gathering timeline0 5000 []) = 300"
    by (simp add: split)
  have cands: "snd (waitForIceGathering Gathering timeline0 5000 []) = [cand0]"
    by (simp add: waitForIceGathering_def timeline0_def onicecandidate_def)
  from at300 cands have resolved: "waitForIceGathering Gathering timeline0 5000 [] = (300, [cand0])"
    by (simp add: prod_eq_iff)
  from unloaded have complete: "fst (waitForIceGathering Complete timeline0 5000 []) = 0"
    by simp
  from open_end have never: "fst (waitForIceGathering Gathering ?pre 5000 []) = 5000"
    by simp
  show ?thesis
    using settle returns start(1) exact thrown bound split resolved complete never
    by blast
qed

section \<open>The order of cleanupStream, and a second offer\<close>

lemma effects_cleanup_release:
  "effects (cleanup_release env info st) = effects st @ release_effects env info"
  by (simp add: cleanup_release_def cleanup_stop_track_def cleanup_kill_ffmpeg_def
      cleanup_close_pc_def release_effects_def split: option.splits kill_outcome.splits)

lemma effects_cleanupStream:
  "effects (cleanupStream env s st) =
     effects st @ (case map_of (activeStreams st) s of None \<Rightarrow> []
                    | Some info \<Rightarrow> release_effects env info
                        @ [ActiveStreamsDelete s, Emit ''stream-cleaned'' s])"
  by (simp add: cleanupStream_def Let_def effects_cleanup_release split: option.splits)

lemma release_effects_no_delete: "ActiveStreamsDelete s \<notin> set (release_effects env info)"
  by (simp add: release_effects_def split: option.splits)

text \<open>
  C2 as stated fails. For the session of \<open>bridge1\<close>, what \<open>cleanupStream\<close> does in
  order: it closes the peer connection, signals the process, sets the timer, stops
  both tracks, and only then removes the session from the map; the removal is its
  sixth step, not its first.
\<close>

theorem cleanupStream_removes_first_counterexample:
  "map_of (activeStreams bridge1) ''s1'' = Some info1
   \<and> effects (cleanupStream native0 ''s1'' bridge1) =
       effects bridge1 @ [PcClose 0, Kill 1 SIGTERM, SetTimeoutKill 1 5000, TrackStop 2, TrackStop 3,
         ActiveStreamsDelete ''s1'', Emit ''stream-cleaned'' ''s1'']"
proof -
  have present: "map_of (activeStreams bridge1) ''s1'' = Some info1"
    by (simp add: bridge1_eval info1_def)
  have rel: "release_effects native0 info1 =
      [PcClose 0, Kill 1 SIGTERM, SetTimeoutKill 1 5000, TrackStop 2, TrackStop 3]"
    by (simp add: release_effects_def info1_def native0_def)
  show ?thesis
    using present rel by (simp add: effects_cleanupStream)
qed

text \<open>
  C2, amended. For a stream identifier with a session, every release call that
  \<open>cleanupStream\<close> makes for the session (closing the peer connection, signalling the
  FFmpeg process, stopping the track handles) comes before the removal of the session
  from the map: the removal is its last step before the \<open>stream-cleaned\<close>
  notification, and after each of the release steps the session is still in the map.
  When it returns, the identifier is absent from the map.
\<close>

theorem cleanupStream_releases_then_removes:
  assumes "map_of (activeStreams st) streamId = Some info"
  shows "effects (cleanupStream env streamId st) =
        effects st @ release_effects env info
          @ [ActiveStreamsDelete streamId, Emit ''stream-cleaned'' streamId]
    \<and> ActiveStreamsDelete streamId \<notin> set (release_effects env info)
    \<and> effects (cleanup_release env info st) = effects st @ release_effects env info
    \<and> map_of (activeStreams (cleanup_close_pc info st)) streamId = Some info
    \<and> map_of (activeStreams (cleanup_kill_ffmpeg env info (cleanup_close_pc info st))) streamId =
        Some info
    \<and> map_of (activeStreams (cleanup_release env info st)) streamId = Some info
    \<and> map_of (activeStreams (cleanupStream env streamId st)) streamId = None"
  using assms
  by (simp add: effects_cleanupStream release_effects_no_delete effects_cleanup_release
      cleanupStream_removes cleanup_close_pc_def cleanup_kill_ffmpeg_def
      split: option.splits kill_outcome.splits)

text \<open>C2, amended, at the session of \<open>bridge1\<close>.\<close>

theorem cleanupStream_releases_then_removes_witness:
  "map_of (activeStreams bridge1) ''s1'' = Some info1
   \<and> release_effects native0 info1 =
       [PcClose 0, Kill 1 SIGTERM, SetTimeoutKill 1 5000, TrackStop 2, TrackStop 3]
   \<and> effects (cleanupStream native0 ''s1'' bridge1) =
       effects bridge1 @ [PcClose 0, Kill 1 SIGTERM, SetTimeoutKill 1 5000, TrackStop 2, TrackStop 3,
         ActiveStreamsDelete ''s1'', Emit ''stream-cleaned'' ''s1'']
   \<and> map_of (activeStreams (cleanupStream native0 ''s1'' bridge1)) ''s1'' = None"
proof -
  have present: "map_of (activeStreams bridge1) ''s1'' = Some info1"
    by (simp add: bridge1_eval info1_def)
  have rel: "release_effects native0 info1 =
      [PcClose 0, Kill 1 SIGTERM, SetTimeoutKill 1 5000, TrackStop 2, TrackStop 3]"
    by (simp add: release_effects_def info1_def native0_def)
  from cleanupStream_releases_then_removes [OF present, of native0]
  have eff: "effects (cleanupStream native0 ''s1'' bridge1) =
        effects bridge1 @ release_effects native0 info1
          @ [ActiveStreamsDelete ''s1'', Emit ''stream-cleaned'' ''s1'']"
    and gone: "map_of (activeStreams (cleanupStream native0 ''s1'' bridge1)) ''s1'' = None"
    by blast+
  show ?thesis
    using present rel eff gone by simp
qed

lemma length_update_present:
  "map_of al k = Some v \<Longrightarrow> length (AList.update k v' al) = length al"
  by (induction al) (auto split: if_splits)

lemma handleOffer_Inr_effects:
  assumes "handleOffer env streamId key offer st = (Some (Inr r), st')"
  shows "effects st' = effects st @ [NewPeerConnection (next_handle st),
          Spawn (Suc (next_handle st)) (muxRtmpUrl st @ ''/'' @ key)]"
  using handleOffer_Inr [OF assms] by auto

lemma handleOffer_Inr_session:
  assumes "handleOffer env streamId key offer st = (Some (Inr r), st')"
  shows "\<exists>new. map_of (activeStreams st') streamId = Some new
        \<and> pc new = Some (next_handle st) \<and> streamKey new = key \<and> ffmpeg new = None
        \<and> audioTrack new = None \<and> videoTrack new = None \<and> \<not> sdpCreated new"
  using handleOffer_Inr [OF assms] by (auto simp add: AList.update_conv')

lemma handleOffer_Inr_count:
  assumes "handleOffer env streamId key offer st = (Some (Inr r), st')"
    and "map_of (activeStreams st) streamId = Some old"
  shows "length (activeStreams st') = length (activeStreams st)"
  using handleOffer_Inr [OF assms(1)] assms(2) by (auto simp add: length_update_present)

lemma loadWrtc_activeStreams:
  "loadWrtc env (st\<lparr>activeStreams := al\<rparr>) =
     map_option (\<lambda>s. s\<lparr>activeStreams := al\<rparr>) (loadWrtc env st)"
  by (simp add: loadWrtc_def assign_wrtc_def tick_def split: promise.splits option.splits)

lemma fst_handleOffer_activeStreams:
  "fst (handleOffer env streamId key offer (st\<lparr>activeStreams := al\<rparr>)) =
   fst (handleOffer env streamId key offer st)"
proof (cases "wrtcAvailable st")
  case True
  then show ?thesis
    by (simp add: handleOffer_def Let_def log_effects_def tick_def setupMediaProcessing_def
      split: promise.splits sum.splits)
next
  case False
  show ?thesis
  proof (cases "loadWrtc env st")
    case None
    with False show ?thesis by (simp add: handleOffer_def loadWrtc_activeStreams)
  next
    case (Some l)
    with False show ?thesis
      by (simp add: handleOffer_def loadWrtc_activeStreams Let_def log_effects_def tick_def
        setupMediaProcessing_def split: promise.splits sum.splits)
  qed
qed

text \<open>
  C3, amended. A call of \<open>handleOffer\<close> for a stream identifier whose session is
  registered is handled like a first one: whether it succeeds does not depend on the
  map, and when it succeeds the entry of the identifier holds the new session (the new
  peer connection, no track, no process handle) and the number of entries is
  unchanged. What the call does outside the map is to create the new peer connection
  and to spawn the new FFmpeg process.
\<close>

theorem handleOffer_replaces_session:
  assumes "map_of (activeStreams st) streamId = Some old"
    and "handleOffer env streamId key offer st = (Some (Inr r), st')"
  shows "(\<exists>new. map_of (activeStreams st') streamId = Some new
        \<and> pc new = Some (next_handle st) \<and> streamKey new = key \<and> ffmpeg new = None
        \<and> audioTrack new = None \<and> videoTrack new = None \<and> \<not> sdpCreated new)
    \<and> getActiveStreamCount st' = getActiveStreamCount st
    \<and> effects st' = effects st @ [NewPeerConnection (next_handle st),
         Spawn (Suc (next_handle st)) (muxRtmpUrl st @ ''/'' @ key)]
    \<and> fst (handleOffer env streamId key offer (st\<lparr>activeStreams := []\<rparr>)) = Some (Inr r)"
proof -
  note eff = handleOffer_Inr_effects [OF assms(2)]
  note new = handleOffer_Inr_session [OF assms(2)]
  have cnt: "getActiveStreamCount st' = getActiveStreamCount st"
    using handleOffer_Inr_count [OF assms(2) assms(1)] by (simp add: getActiveStreamCount_def)
  have indep: "fst (handleOffer env streamId key offer (st\<lparr>activeStreams := []\<rparr>)) = Some (Inr r)"
    using assms(2) by (simp add: fst_handleOffer_activeStreams)
  show ?thesis
    using new cnt eff indep by blast
qed

text \<open>
  C3 as stated fails. With the session of \<open>bridge1\<close> registered under \<open>s1\<close> (peer
  connection 0, process 1), a second offer for \<open>s1\<close> is accepted, the entry is
  overwritten by a session with peer connection 2, and neither \<open>close\<close> on peer
  connection 0 nor \<open>kill\<close> on process 1 was called.
\<close>

theorem handleOffer_duplicate_counterexample:
  "map_of (activeStreams bridge1) ''s1'' = Some info1
   \<and> pc info1 = Some 0 \<and> ffmpeg info1 = Some 1
   \<and> fst (handleOffer native0 ''s1'' ''key456'' offer0 bridge1) =
       Some (Inr \<lparr>res_answer = \<lparr>sd_type = ''answer'', sd_sdp = ''v=0''\<rparr>, res_iceCandidates = []\<rparr>)
   \<and> activeStreams (snd (handleOffer native0 ''s1'' ''key456'' offer0 bridge1)) =
       [(''s1'',
         \<lparr>pc = Some 2, streamKey = ''key456'', iceCandidates = [],
            answer = \<lparr>sd_type = ''answer'', sd_sdp = ''v=0''\<rparr>, ffmpeg = None,
            audioTrack = None, videoTrack = None, sdpCreated = False\<rparr>)]
   \<and> effects (snd (handleOffer native0 ''s1'' ''key456'' offer0 bridge1)) =
       effects bridge1 @
         [NewPeerConnection 2, Spawn 3 ''rtmp://global-live.mux.com:5222/app/key456'']
   \<and> PcClose 0 \<notin> set (effects (snd (handleOffer native0 ''s1'' ''key456'' offer0 bridge1)))
   \<and> Kill 1 SIGTERM \<notin> set (effects (snd (handleOffer native0 ''s1'' ''key456'' offer0 bridge1)))"
  by (simp add: handleOffer_second) (simp add: bridge1_eval info1_def)

text \<open>C3, amended, at the second offer for \<open>s1\<close>.\<close>

theorem handleOffer_replaces_session_witness:
  "map_of (activeStreams bridge1) ''s1'' = Some info1
   \<and> (\<exists>new. map_of (activeStreams (snd (handleOffer native0 ''s1'' ''key456'' offer0 bridge1))) ''s1'' = Some new
         \<and> pc new = Some 2 \<and> streamKey new = ''key456'' \<and> ffmpeg new = None)
   \<and> getActiveStreamCount (snd (handleOffer native0 ''s1'' ''key456'' offer0 bridge1)) = 1"
proof -
  have present: "map_of (activeStreams bridge1) ''s1'' = Some info1"
    by (simp add: bridge1_eval info1_def)
  have nh: "next_handle bridge1 = 2" and cnt: "getActiveStreamCount bridge1 = 1"
    by (simp_all add: bridge1_eval getActiveStreamCount_def)
  have run: "handleOffer native0 ''s1'' ''key456'' offer0 bridge1 =
      (fst (handleOffer native0 ''s1'' ''key456'' offer0 bridge1),
       snd (handleOffer native0 ''s1'' ''key456'' offer0 bridge1))"
    by simp
  have ok: "fst (handleOffer native0 ''s1'' ''key456'' offer0 bridge1) =
      Some (Inr \<lparr>res_answer = \<lparr>sd_type = ''answer'', sd_sdp = ''v=0''\<rparr>, res_iceCandidates = []\<rparr>)"
    by (simp add: handleOffer_second)
  show ?thesis
    using present handleOffer_replaces_session [OF present run [unfolded ok]] nh cnt
    by auto
qed

section \<open>When the pipeline starts\<close>

lemma sdp_calls_append [simp]: "sdp_calls s (xs @ ys) = sdp_calls s xs + sdp_calls s ys"
  by (simp add: sdp_calls_def)

lemma spawn_count_append [simp]: "spawn_count (xs @ ys) = spawn_count xs + spawn_count ys"
  by (simp add: spawn_count_def)

lemma sdp_calls_Nil [simp]: "sdp_calls s [] = 0"
  by (simp add: sdp_calls_def)

lemma spawn_count_Nil [simp]: "spawn_count [] = 0"
  by (simp add: spawn_count_def)

lemma sdp_calls_Cons [simp]:
  "sdp_calls s (e # es) = (if is_sdp_call s e then 1 else 0) + sdp_calls s es"
  by (simp add: sdp_calls_def)

lemma spawn_count_Cons [simp]:
  "spawn_count (e # es) = (if is_spawn e then 1 else 0) + spawn_count es"
  by (simp add: spawn_count_def)

lemma sdp_calls_release [simp]: "sdp_calls s (release_effects env info) = 0"
  by (simp add: release_effects_def sdp_calls_def split: option.splits)

lemma spawn_count_release [simp]: "spawn_count (release_effects env info) = 0"
  by (simp add: release_effects_def spawn_count_def split: option.splits)

text \<open>A late candidate changes the candidate array of the session and nothing else.\<close>

lemma effects_pc_onicecandidate [simp]: "effects (pc_onicecandidate s p c st) = effects st"
  by (simp add: pc_onicecandidate_def split: option.splits)

lemma sdp_done_pc_onicecandidate [simp]:
  "sdp_done s' (pc_onicecandidate s p c st) = sdp_done s' st"
  by (simp add: pc_onicecandidate_def sdp_done_def AList.update_conv' split: option.splits)

lemma has_audio_pc_onicecandidate [simp]:
  "has_audio s' (pc_onicecandidate s p c st) = has_audio s' st"
  by (simp add: pc_onicecandidate_def has_audio_def AList.update_conv' split: option.splits)

lemma has_video_pc_onicecandidate [simp]:
  "has_video s' (pc_onicecandidate s p c st) = has_video s' st"
  by (simp add: pc_onicecandidate_def has_video_def AList.update_conv' split: option.splits)

lemma sdp_calls_cleanupStream [simp]:
  "sdp_calls s (effects (cleanupStream env s' st)) = sdp_calls s (effects st)"
  by (simp add: effects_cleanupStream split: option.splits)

lemma spawn_count_cleanupStream [simp]:
  "spawn_count (effects (cleanupStream env s' st)) = spawn_count (effects st)"
  by (simp add: effects_cleanupStream split: option.splits)

lemma sdp_done_cleanupStream [simp]: "sdp_done s (cleanupStream env s st)"
  by (simp add: sdp_done_def cleanupStream_removes)

lemma has_audio_cleanupStream [simp]: "\<not> has_audio s (cleanupStream env s st)"
  by (simp add: has_audio_def cleanupStream_removes)

lemma has_video_cleanupStream [simp]: "\<not> has_video s (cleanupStream env s st)"
  by (simp add: has_video_def cleanupStream_removes)

lemma activeStreams_handleIceCandidate [simp]:
  "activeStreams (snd (handleIceCandidate env s c st)) = activeStreams st"
  by (simp add: handleIceCandidate_def split: option.splits)

lemma effects_handleIceCandidate:
  "effects (snd (handleIceCandidate env s c st)) = effects st
   \<or> (\<exists>p. effects (snd (handleIceCandidate env s c st)) = effects st @ [AddedIceCandidate p c])"
  by (simp add: handleIceCandidate_def split: option.splits)

lemma sdp_calls_handleIceCandidate [simp]:
  "sdp_calls s (effects (snd (handleIceCandidate env s' c st))) = sdp_calls s (effects st)"
  using effects_handleIceCandidate [of env s' c st] by auto

lemma spawn_count_handleIceCandidate [simp]:
  "spawn_count (effects (snd (handleIceCandidate env s' c st))) = spawn_count (effects st)"
  using effects_handleIceCandidate [of env s' c st] by auto

lemma effects_ontrack:
  "effects (ontrack s p q tr st) = effects st
   \<or> effects (ontrack s p q tr st) = effects st @ [CreateSDPForFFmpeg s p q]"
  by (simp add: ontrack_def Let_def createSDPForFFmpeg_def split: option.splits)

lemma spawn_count_step [simp]:
  "spawn_count (effects (session_step env s p q e st)) = spawn_count (effects st)"
proof (cases e)
  case (TrackEvent tr)
  then show ?thesis using effects_ontrack [of s p q tr st] by auto
qed (simp_all add: onconnectionstatechange_def ffmpeg_on_close_def ffmpeg_on_error_def
    track_onended_def)

lemma spawn_count_run:
  "spawn_count (effects (session_run env s p q es st)) = spawn_count (effects st)"
  by (induction es arbitrary: st) simp_all

text \<open>One event either leaves the number of SDP calls alone, or adds one and leaves the flag set.\<close>

lemma sdp_calls_ontrack:
  "(sdp_calls s (effects (ontrack s p q tr st)) = sdp_calls s (effects st)
      \<and> (sdp_done s st \<longrightarrow> sdp_done s (ontrack s p q tr st)))
   \<or> (sdp_calls s (effects (ontrack s p q tr st)) = Suc (sdp_calls s (effects st))
      \<and> \<not> sdp_done s st \<and> sdp_done s (ontrack s p q tr st))"
  by (simp add: ontrack_def Let_def createSDPForFFmpeg_def sdp_done_def AList.update_conv'
      split: option.splits)

lemma sdp_done_log_effects [simp]: "sdp_done s (log_effects es st) = sdp_done s st"
  by (simp add: sdp_done_def)

lemma sdp_calls_step:
  "(sdp_calls s (effects (session_step env s p q e st)) = sdp_calls s (effects st)
      \<and> (sdp_done s st \<longrightarrow> sdp_done s (session_step env s p q e st)))
   \<or> (sdp_calls s (effects (session_step env s p q e st)) = Suc (sdp_calls s (effects st))
      \<and> \<not> sdp_done s st \<and> sdp_done s (session_step env s p q e st))"
proof (cases e)
  case (TrackEvent tr)
  then show ?thesis using sdp_calls_ontrack [of s p q tr st] by simp
next
  case (RemoteCandidate c)
  then show ?thesis by (simp add: sdp_done_def)
qed (simp_all add: onconnectionstatechange_def ffmpeg_on_close_def ffmpeg_on_error_def
    track_onended_def)

lemma sdp_calls_run_done:
  "sdp_done s st \<Longrightarrow> sdp_calls s (effects (session_run env s p q es st)) = sdp_calls s (effects st)"
proof (induction es arbitrary: st)
  case Nil
  then show ?case by simp
next
  case (Cons e es)
  from sdp_calls_step [of s env p q e st] Cons.prems
  have "sdp_calls s (effects (session_step env s p q e st)) = sdp_calls s (effects st)"
    and "sdp_done s (session_step env s p q e st)"
    by auto
  with Cons.IH [of "session_step env s p q e st"] show ?case by simp
qed

lemma sdp_calls_run_le:
  "sdp_calls s (effects (session_run env s p q es st)) \<le> Suc (sdp_calls s (effects st))
   \<and> sdp_calls s (effects st) \<le> sdp_calls s (effects (session_run env s p q es st))"
proof (induction es arbitrary: st)
  case Nil
  then show ?case by simp
next
  case (Cons e es)
  let ?st' = "session_step env s p q e st"
  from sdp_calls_step [of s env p q e st] show ?case
  proof
    assume "sdp_calls s (effects ?st') = sdp_calls s (effects st)
      \<and> (sdp_done s st \<longrightarrow> sdp_done s ?st')"
    with Cons.IH [of ?st'] show ?thesis by simp
  next
    assume "sdp_calls s (effects ?st') = Suc (sdp_calls s (effects st))
      \<and> \<not> sdp_done s st \<and> sdp_done s ?st'"
    with sdp_calls_run_done [of s ?st' env p q es] show ?thesis by simp
  qed
qed

text \<open>A stored track was stored by an earlier track event of its kind.\<close>

lemma has_audio_log_effects [simp]: "has_audio s (log_effects es st) = has_audio s st"
  by (simp add: has_audio_def)

lemma has_video_log_effects [simp]: "has_video s (log_effects es st) = has_video s st"
  by (simp add: has_video_def)

lemma has_audio_handleIceCandidate [simp]:
  "has_audio s (snd (handleIceCandidate env s' c st)) = has_audio s st"
  by (simp add: has_audio_def)

lemma has_video_handleIceCandidate [simp]:
  "has_video s (snd (handleIceCandidate env s' c st)) = has_video s st"
  by (simp add: has_video_def)

lemma has_audio_ontrack:
  "has_audio s (ontrack s p q tr st) \<Longrightarrow> has_audio s st \<or> track_kind tr = ''audio''"
  by (auto simp add: ontrack_def Let_def createSDPForFFmpeg_def has_audio_def AList.update_conv'
      split: option.splits if_splits)

lemma has_video_ontrack:
  "has_video s (ontrack s p q tr st) \<Longrightarrow> has_video s st \<or> track_kind tr = ''video''"
  by (auto simp add: ontrack_def Let_def createSDPForFFmpeg_def has_video_def AList.update_conv'
      split: option.splits if_splits)

lemma has_audio_step:
  "has_audio s (session_step env s p q e st) \<Longrightarrow>
     has_audio s st \<or> (\<exists>tr. e = TrackEvent tr \<and> track_kind tr = ''audio'')"
proof (cases e)
  case (TrackEvent tr)
  then show "has_audio s (session_step env s p q e st) \<Longrightarrow> ?thesis"
    using has_audio_ontrack [of s p q tr st] by simp
next
  case (ConnectionStateChange c)
  then show "has_audio s (session_step env s p q e st) \<Longrightarrow> ?thesis"
    by (simp add: onconnectionstatechange_def split: if_splits)
next
  case (FfmpegClose code)
  then show "has_audio s (session_step env s p q e st) \<Longrightarrow> ?thesis"
    by (simp add: ffmpeg_on_close_def split: if_splits)
qed (simp_all add: ffmpeg_on_error_def track_onended_def)

lemma has_video_step:
  "has_video s (session_step env s p q e st) \<Longrightarrow>
     has_video s st \<or> (\<exists>tr. e = TrackEvent tr \<and> track_kind tr = ''video'')"
proof (cases e)
  case (TrackEvent tr)
  then show "has_video s (session_step env s p q e st) \<Longrightarrow> ?thesis"
    using has_video_ontrack [of s p q tr st] by simp
next
  case (ConnectionStateChange c)
  then show "has_video s (session_step env s p q e st) \<Longrightarrow> ?thesis"
    by (simp add: onconnectionstatechange_def split: if_splits)
next
  case (FfmpegClose code)
  then show "has_video s (session_step env s p q e st) \<Longrightarrow> ?thesis"
    by (simp add: ffmpeg_on_close_def split: if_splits)
qed (simp_all add: ffmpeg_on_error_def track_onended_def)

lemma sdp_call_ontrack:
  "sdp_calls s (effects (ontrack s p q tr st)) \<noteq> sdp_calls s (effects st) \<Longrightarrow>
     has_audio s (ontrack s p q tr st) \<and> has_video s (ontrack s p q tr st)"
  by (auto simp add: ontrack_def Let_def createSDPForFFmpeg_def has_audio_def has_video_def
      AList.update_conv' split: option.splits if_splits)

lemma sdp_call_needs_tracks:
  "sdp_calls s (effects (session_step env s p q e st)) \<noteq> sdp_calls s (effects st) \<Longrightarrow>
     has_audio s (session_step env s p q e st) \<and> has_video s (session_step env s p q e st)"
proof (cases e)
  case (TrackEvent tr)
  then show "sdp_calls s (effects (session_step env s p q e st)) \<noteq> sdp_calls s (effects st) \<Longrightarrow> ?thesis"
    using sdp_call_ontrack [of s p q tr st] by simp
next
  case (ConnectionStateChange c)
  then show "sdp_calls s (effects (session_step env s p q e st)) \<noteq> sdp_calls s (effects st) \<Longrightarrow> ?thesis"
    by (simp add: onconnectionstatechange_def split: if_splits)
next
  case (FfmpegClose code)
  then show "sdp_calls s (effects (session_step env s p q e st)) \<noteq> sdp_calls s (effects st) \<Longrightarrow> ?thesis"
    by (simp add: ffmpeg_on_close_def split: if_splits)
qed (simp_all add: ffmpeg_on_error_def track_onended_def)

lemma track_kinds_Cons:
  "set (track_kinds (e # es)) =
     (case e of TrackEvent tr \<Rightarrow> insert (track_kind tr) (set (track_kinds es)) | _ \<Rightarrow> set (track_kinds es))"
  by (cases e) simp_all

lemma sdp_call_only_after_both:
  "sdp_calls s (effects (session_run env s p q es st)) \<noteq> sdp_calls s (effects st) \<Longrightarrow>
     (has_audio s st \<or> ''audio'' \<in> set (track_kinds es))
     \<and> (has_video s st \<or> ''video'' \<in> set (track_kinds es))"
proof (induction es arbitrary: st)
  case Nil
  then show ?case by simp
next
  case (Cons e es)
  let ?st' = "session_step env s p q e st"
  have a: "has_audio s ?st' \<Longrightarrow> has_audio s st \<or> ''audio'' \<in> set (track_kinds (e # es))"
    using has_audio_step [of s env p q e st] by auto
  have v: "has_video s ?st' \<Longrightarrow> has_video s st \<or> ''video'' \<in> set (track_kinds (e # es))"
    using has_video_step [of s env p q e st] by auto
  have mono: "set (track_kinds es) \<subseteq> set (track_kinds (e # es))"
    by (cases e) auto
  show ?case
  proof (cases "sdp_calls s (effects ?st') = sdp_calls s (effects st)")
    case True
    with Cons.prems have "sdp_calls s (effects (session_run env s p q es ?st')) \<noteq> sdp_calls s (effects ?st')"
      by simp
    from Cons.IH [OF this] a v mono show ?thesis by blast
  next
    case False
    from sdp_call_needs_tracks [OF False] a v show ?thesis by blast
  qed
qed

lemma ontrack_pending:
  assumes "\<not> sdp_done s st"
  shows "has_audio s (ontrack s p q tr st) = (has_audio s st \<or> track_kind tr = ''audio'')"
    and "has_video s (ontrack s p q tr st) = (has_video s st \<or> track_kind tr = ''video'')"
    and "sdp_done s (ontrack s p q tr st) =
          (has_audio s (ontrack s p q tr st) \<and> has_video s (ontrack s p q tr st))"
    and "sdp_calls s (effects (ontrack s p q tr st)) =
          sdp_calls s (effects st) + (if sdp_done s (ontrack s p q tr st) then 1 else 0)"
proof -
  from assms obtain info where info: "map_of (activeStreams st) s = Some info" "\<not> sdpCreated info"
    by (auto simp add: sdp_done_def split: option.splits)
  show "has_audio s (ontrack s p q tr st) = (has_audio s st \<or> track_kind tr = ''audio'')"
    using info by (simp add: ontrack_def Let_def createSDPForFFmpeg_def has_audio_def AList.update_conv')
  show "has_video s (ontrack s p q tr st) = (has_video s st \<or> track_kind tr = ''video'')"
    using info by (simp add: ontrack_def Let_def createSDPForFFmpeg_def has_video_def AList.update_conv')
  show "sdp_done s (ontrack s p q tr st) =
          (has_audio s (ontrack s p q tr st) \<and> has_video s (ontrack s p q tr st))"
    using info
    by (simp add: ontrack_def Let_def createSDPForFFmpeg_def has_audio_def has_video_def
        sdp_done_def AList.update_conv')
  show "sdp_calls s (effects (ontrack s p q tr st)) =
          sdp_calls s (effects st) + (if sdp_done s (ontrack s p q tr st) then 1 else 0)"
    using info
    by (simp add: ontrack_def Let_def createSDPForFFmpeg_def sdp_done_def AList.update_conv')
qed

lemma sdp_calls_track_run:
  "\<lbrakk>\<not> sdp_done s st; \<not> (has_audio s st \<and> has_video s st); list_all is_track_event es\<rbrakk> \<Longrightarrow>
     sdp_calls s (effects (session_run env s p q es st)) =
       sdp_calls s (effects st) +
         (if (has_audio s st \<or> ''audio'' \<in> set (track_kinds es))
             \<and> (has_video s st \<or> ''video'' \<in> set (track_kinds es)) then 1 else 0)"
proof (induction es arbitrary: st)
  case Nil
  then show ?case by auto
next
  case (Cons e es)
  from Cons.prems(3) obtain tr where e: "e = TrackEvent tr" and rest: "list_all is_track_event es"
    by (cases e) auto
  let ?st' = "ontrack s p q tr st"
  note o = ontrack_pending [OF Cons.prems(1), of p q tr]
  show ?case
  proof (cases "sdp_done s ?st'")
    case True
    with sdp_calls_run_done [of s ?st' env p q es] o e show ?thesis by auto
  next
    case False
    from False o have "\<not> (has_audio s ?st' \<and> has_video s ?st')" by simp
    from Cons.IH [OF False this rest] o False e show ?thesis by auto
  qed
qed

lemma handleOffer_fresh_session:
  assumes "handleOffer env streamId key offer st = (Some (Inr r), st1)"
  shows "\<not> sdp_done streamId st1 \<and> \<not> has_audio streamId st1 \<and> \<not> has_video streamId st1
    \<and> effects st1 = effects st @ [NewPeerConnection (next_handle st),
         Spawn (Suc (next_handle st)) (muxRtmpUrl st @ ''/'' @ key)]"
  using handleOffer_Inr_session [OF assms] handleOffer_Inr_effects [OF assms]
  by (auto simp add: sdp_done_def has_audio_def has_video_def)

text \<open>
  C1, amended. An accepted offer spawns the FFmpeg process of its session exactly
  once, in \<open>setupMediaProcessing\<close>, when the session holds no track yet; no callback
  of the session spawns another. What waits for the tracks is the SDP step:
  \<open>createSDPForFFmpeg\<close> is called at most once per session, only after a track of
  each kind was observed, and, in a run of track events, exactly when both an audio
  and a video track are among them.
\<close>

theorem pipeline_spawned_at_setup:
  assumes "handleOffer env streamId key offer st = (Some (Inr r), st1)"
  shows "spawn_count (effects st1) = Suc (spawn_count (effects st))
    \<and> \<not> has_audio streamId st1 \<and> \<not> has_video streamId st1
    \<and> spawn_count (effects (session_run env' streamId p q es st1)) = spawn_count (effects st1)
    \<and> sdp_calls streamId (effects (session_run env' streamId p q es st1))
        \<le> Suc (sdp_calls streamId (effects st1))
    \<and> (sdp_calls streamId (effects (session_run env' streamId p q es st1))
          \<noteq> sdp_calls streamId (effects st1) \<longrightarrow>
        ''audio'' \<in> set (track_kinds es) \<and> ''video'' \<in> set (track_kinds es))
    \<and> (list_all is_track_event es \<longrightarrow>
        sdp_calls streamId (effects (session_run env' streamId p q es st1)) =
          sdp_calls streamId (effects st1) +
            (if ''audio'' \<in> set (track_kinds es) \<and> ''video'' \<in> set (track_kinds es) then 1 else 0))"
proof -
  note fresh = handleOffer_fresh_session [OF assms]
  have spawned: "spawn_count (effects st1) = Suc (spawn_count (effects st))"
    using fresh by simp
  have only_if: "sdp_calls streamId (effects (session_run env' streamId p q es st1))
          \<noteq> sdp_calls streamId (effects st1) \<longrightarrow>
        ''audio'' \<in> set (track_kinds es) \<and> ''video'' \<in> set (track_kinds es)"
    using sdp_call_only_after_both [of streamId env' p q es st1] fresh by blast
  have tracks: "list_all is_track_event es \<longrightarrow>
        sdp_calls streamId (effects (session_run env' streamId p q es st1)) =
          sdp_calls streamId (effects st1) +
            (if ''audio'' \<in> set (track_kinds es) \<and> ''video'' \<in> set (track_kinds es) then 1 else 0)"
    using sdp_calls_track_run [of streamId st1 es env' p q] fresh by simp
  show ?thesis
    using spawned fresh only_if tracks spawn_count_run [of env' streamId p q es st1]
      sdp_calls_run_le [of streamId env' p q es st1]
    by blast
qed

text \<open>
  C1 as stated fails. Right after the first offer for \<open>s1\<close> was accepted, with no track
  event so far and neither track stored on the session, the FFmpeg process has been
  spawned.
\<close>

theorem pipeline_start_counterexample:
  "fst (handleOffer native0 ''s1'' ''key123'' offer0 bridge0) =
     Some (Inr \<lparr>res_answer = \<lparr>sd_type = ''answer'', sd_sdp = ''v=0''\<rparr>, res_iceCandidates = []\<rparr>)
   \<and> effects (snd (handleOffer native0 ''s1'' ''key123'' offer0 bridge0)) =
       [NewPeerConnection 0, Spawn 1 ''rtmp://global-live.mux.com:5222/app/key123'']
   \<and> map_of (activeStreams (snd (handleOffer native0 ''s1'' ''key123'' offer0 bridge0))) ''s1'' =
       Some \<lparr>pc = Some 0, streamKey = ''key123'', iceCandidates = [],
            answer = \<lparr>sd_type = ''answer'', sd_sdp = ''v=0''\<rparr>, ffmpeg = None,
            audioTrack = None, videoTrack = None, sdpCreated = False\<rparr>
   \<and> spawn_count (effects (snd (handleOffer native0 ''s1'' ''key123'' offer0 bridge0))) = 1
   \<and> track_kinds [] = []"
  by (simp add: handleOffer_first)

text \<open>C1, amended, at the first offer for \<open>s1\<close> followed by track events.\<close>

theorem pipeline_spawned_at_setup_witness:
  "handleOffer native0 ''s1'' ''key123'' offer0 bridge0 =
     (Some (Inr \<lparr>res_answer = \<lparr>sd_type = ''answer'', sd_sdp = ''v=0''\<rparr>, res_iceCandidates = []\<rparr>),
      snd (handleOffer native0 ''s1'' ''key123'' offer0 bridge0))
   \<and> spawn_count (effects (snd (handleOffer native0 ''s1'' ''key123'' offer0 bridge0))) = 1
   \<and> list_all is_track_event [TrackEvent audio0, TrackEvent video0, TrackEvent audio0]
   \<and> sdp_calls ''s1'' (effects (session_run native0 ''s1'' 0 1
        [TrackEvent audio0, TrackEvent video0, TrackEvent audio0]
        (snd (handleOffer native0 ''s1'' ''key123'' offer0 bridge0)))) = 1
   \<and> sdp_calls ''s1'' (effects (session_run native0 ''s1'' 0 1
        [TrackEvent audio0, TrackEvent audio0]
        (snd (handleOffer native0 ''s1'' ''key123'' offer0 bridge0)))) = 0"
proof -
  have run: "handleOffer native0 ''s1'' ''key123'' offer0 bridge0 =
     (Some (Inr \<lparr>res_answer = \<lparr>sd_type = ''answer'', sd_sdp = ''v=0''\<rparr>, res_iceCandidates = []\<rparr>),
      snd (handleOffer native0 ''s1'' ''key123'' offer0 bridge0))"
    by (simp add: handleOffer_first)
  have e0: "effects bridge0 = []"
    by (simp add: bridge0_def)
  have k1: "track_kinds [TrackEvent audio0, TrackEvent video0, TrackEvent audio0] = [''audio'', ''video'', ''audio'']"
    and k2: "track_kinds [TrackEvent audio0, TrackEvent audio0] = [''audio'', ''audio'']"
    by (simp_all add: audio0_def video0_def)
  have s1: "sdp_calls ''s1'' (effects (snd (handleOffer native0 ''s1'' ''key123'' offer0 bridge0))) = 0"
    by (simp add: handleOffer_first)
  show ?thesis
    using run e0 s1
      pipeline_spawned_at_setup [OF run, of native0 0 1 "[TrackEvent audio0, TrackEvent video0, TrackEvent audio0]"]
      pipeline_spawned_at_setup [OF run, of native0 0 1 "[TrackEvent audio0, TrackEvent audio0]"]
    unfolding k1 k2
    by simp
qed

section \<open>Properties of the signaling server\<close>

lemma room_list_rooms_update:
  "room_list (st\<lparr>rooms := AList.update r l (rooms st), users := us\<rparr>) r' =
     (if r' = r then l else room_list st r')"
  by (simp add: room_list_def AList.update_conv')

lemma join_rejected: "\<not> join_accepted d \<Longrightarrow> snd (on_join_room sock d cb st) = st"
  by (simp add: on_join_room_def)

lemma join_room_list:
  "join_accepted d \<Longrightarrow>
     room_list (snd (on_join_room sock d cb st)) r =
       (if r = join_roomId d
        then room_list st r @ [\<lparr>socketId = sock, userId = join_userId d, userType = join_userType d\<rparr>]
        else room_list st r)"
  by (simp add: on_join_room_def Let_def room_list_def AList.update_conv' split: option.splits)

lemma join_users:
  "join_accepted d \<Longrightarrow>
     map_of (users (snd (on_join_room sock d cb st))) =
       (map_of (users st))(sock \<mapsto>
          \<lparr>user_roomId = join_roomId d, user_userId = join_userId d, user_userType = join_userType d\<rparr>)"
  by (simp add: on_join_room_def Let_def AList.update_conv')

lemma leave_unregistered:
  "map_of (users st) sock = None \<Longrightarrow> snd (on_leave_room sock r st) = st"
  by (simp add: on_leave_room_def)

lemma leave_room_list:
  "map_of (users st) sock = Some u \<Longrightarrow>
     room_list (snd (on_leave_room sock r st)) r' =
       (if r' = r then remove_socket sock (room_list st r') else room_list st r')"
  by (simp add: on_leave_room_def Let_def room_list_def AList.update_conv' split: option.splits)

lemma leave_users:
  "map_of (users st) sock = Some u \<Longrightarrow>
     map_of (users (snd (on_leave_room sock r st))) = (map_of (users st))(sock := None)"
  by (simp add: on_leave_room_def Let_def AList.delete_conv')

lemma disconnect_unregistered:
  "map_of (users st) sock = None \<Longrightarrow> snd (on_disconnect sock st) = st"
  by (simp add: on_disconnect_def)

lemma disconnect_room_list:
  "map_of (users st) sock = Some u \<Longrightarrow>
     room_list (snd (on_disconnect sock st)) r' =
       (if r' = user_roomId u then remove_socket sock (room_list st r') else room_list st r')"
  by (simp add: on_disconnect_def Let_def room_list_def AList.update_conv' split: option.splits)

lemma disconnect_users:
  "map_of (users st) sock = Some u \<Longrightarrow>
     map_of (users (snd (on_disconnect sock st))) = (map_of (users st))(sock := None)"
  by (simp add: on_disconnect_def Let_def AList.delete_conv' split: option.splits)

lemma count_remove_socket:
  "count_list (map socketId (remove_socket s ps)) x =
     (if x = s then count_list (map socketId ps) s - 1 else count_list (map socketId ps) x)"
  by (induction ps) auto

lemma length_remove_socket:
  "0 < count_list (map socketId ps) s \<Longrightarrow> Suc (length (remove_socket s ps)) = length ps"
  by (induction ps) (auto split: if_splits)

lemma mirror_step:
  assumes "rooms_mirror_users st" and "one_room_event e st"
  shows "rooms_mirror_users (signaling_step e st)"
proof (cases e)
  case (JoinRoom sock d cb)
  show ?thesis
  proof (cases "join_accepted d")
    case False
    with JoinRoom assms(1) show ?thesis by (simp add: join_rejected)
  next
    case True
    with JoinRoom assms(2) have fresh: "map_of (users st) sock = None" by simp
    show ?thesis
      unfolding rooms_mirror_users_def
    proof (intro allI)
      fix r x
      from assms(1) have inv: "count_list (map socketId (room_list st r)) x =
          (if registered_in st x r then 1 else 0)"
        by (simp add: rooms_mirror_users_def)
      from fresh have unreg: "\<not> registered_in st sock r"
        by (simp add: registered_in_def)
      show "count_list (map socketId (room_list (signaling_step e st) r)) x =
          (if registered_in (signaling_step e st) x r then 1 else 0)"
        using inv unreg True
        by (auto simp add: JoinRoom join_room_list registered_in_def join_users)
    qed
  qed
next
  case (LeaveRoom sock r0)
  show ?thesis
  proof (cases "map_of (users st) sock")
    case None
    with LeaveRoom assms(1) show ?thesis by (simp add: leave_unregistered)
  next
    case (Some u)
    with LeaveRoom assms(2) have room: "user_roomId u = r0" by simp
    show ?thesis
      unfolding rooms_mirror_users_def
    proof (intro allI)
      fix r x
      from assms(1) have inv: "\<And>y. count_list (map socketId (room_list st r)) y =
          (if registered_in st y r then 1 else 0)"
        by (simp add: rooms_mirror_users_def)
      show "count_list (map socketId (room_list (signaling_step e st) r)) x =
          (if registered_in (signaling_step e st) x r then 1 else 0)"
        using inv [of x] inv [of sock] Some room
        by (auto simp add: LeaveRoom leave_room_list [OF Some] leave_users [OF Some]
            registered_in_def count_remove_socket)
    qed
  qed
next
  case (Disconnect sock)
  show ?thesis
  proof (cases "map_of (users st) sock")
    case None
    with Disconnect assms(1) show ?thesis by (simp add: disconnect_unregistered)
  next
    case (Some u)
    show ?thesis
      unfolding rooms_mirror_users_def
    proof (intro allI)
      fix r x
      from assms(1) have inv: "\<And>y. count_list (map socketId (room_list st r)) y =
          (if registered_in st y r then 1 else 0)"
        by (simp add: rooms_mirror_users_def)
      show "count_list (map socketId (room_list (signaling_step e st) r)) x =
          (if registered_in (signaling_step e st) x r then 1 else 0)"
        using inv [of x] inv [of sock] Some
        by (auto simp add: Disconnect disconnect_room_list [OF Some] disconnect_users [OF Some]
            registered_in_def count_remove_socket)
    qed
  qed
qed

lemma count_step:
  assumes "rooms_mirror_users st" and "one_room_event e st"
  shows "length (room_list (signaling_step e st) r) + (if departs_from r e st then 1 else 0) =
     length (room_list st r) + joins_into r [e]"
proof (cases e)
  case (JoinRoom sock d cb)
  then show ?thesis
    by (cases "join_accepted d") (simp_all add: join_rejected join_room_list)
next
  case (LeaveRoom sock r0)
  show ?thesis
  proof (cases "map_of (users st) sock")
    case None
    with LeaveRoom show ?thesis by (simp add: leave_unregistered)
  next
    case (Some u)
    with LeaveRoom assms(2) have room: "user_roomId u = r0" by simp
    from assms(1) have "count_list (map socketId (room_list st r0)) sock =
        (if registered_in st sock r0 then 1 else 0)"
      by (simp add: rooms_mirror_users_def)
    with Some room have "0 < count_list (map socketId (room_list st r0)) sock"
      by (simp add: registered_in_def)
    from length_remove_socket [OF this] Some room show ?thesis
      by (auto simp add: LeaveRoom leave_room_list [OF Some])
  qed
next
  case (Disconnect sock)
  show ?thesis
  proof (cases "map_of (users st) sock")
    case None
    with Disconnect show ?thesis by (simp add: disconnect_unregistered)
  next
    case (Some u)
    from assms(1) have "count_list (map socketId (room_list st (user_roomId u))) sock =
        (if registered_in st sock (user_roomId u) then 1 else 0)"
      by (simp add: rooms_mirror_users_def)
    with Some have "0 < count_list (map socketId (room_list st (user_roomId u))) sock"
      by (simp add: registered_in_def)
    from length_remove_socket [OF this] Some show ?thesis
      by (auto simp add: Disconnect disconnect_room_list [OF Some])
  qed
qed

lemma joins_into_Cons: "joins_into r (e # es) = joins_into r [e] + joins_into r es"
  by (cases e) simp_all

lemma mirror_run:
  "\<lbrakk>rooms_mirror_users st; one_room_at_a_time es st\<rbrakk> \<Longrightarrow> rooms_mirror_users (signaling_run es st)"
  by (induction es arbitrary: st) (simp_all add: mirror_step)

lemma count_run:
  "\<lbrakk>rooms_mirror_users st; one_room_at_a_time es st\<rbrakk> \<Longrightarrow>
     length (room_list (signaling_run es st) r) + departures_from r es st =
       length (room_list st r) + joins_into r es"
proof (induction es arbitrary: st)
  case Nil
  then show ?case by simp
next
  case (Cons e es)
  from Cons.prems have ev: "one_room_event e st" and rest: "one_room_at_a_time es (signaling_step e st)"
    by simp_all
  from mirror_step [OF Cons.prems(1) ev] have inv': "rooms_mirror_users (signaling_step e st)" .
  from Cons.IH [OF inv' rest] count_step [OF Cons.prems(1) ev, of r]
  show ?case
    by (simp add: joins_into_Cons [of r e es])
qed

lemma mirror_server0: "rooms_mirror_users server0"
  by (simp add: rooms_mirror_users_def server0_def room_list_def registered_in_def)

lemma mirror_no_stale:
  assumes "rooms_mirror_users st" and "p \<in> set (room_list st r)"
  shows "registered_in st (socketId p) r"
proof -
  from assms(2) have "socketId p \<in> set (map socketId (room_list st r))" by simp
  then have "0 < count_list (map socketId (room_list st r)) (socketId p)"
    by (simp add: count_list_0_iff zero_less_iff_neq_zero del: set_map)
  with assms(1) show ?thesis
    by (simp add: rooms_mirror_users_def split: if_splits)
qed

text \<open>
  C5, amended. For every sequence of join, leave and disconnect operations, starting
  from the empty server, in which a connection joins only while it is not registered
  and names in \<open>leave-room\<close> the room it joined: the length of each room's participant
  list is the number of joins into the room minus the number of leaves and
  disconnects of connections registered in it, and every entry of the list belongs to
  a connection that is registered in that room.
\<close>

theorem room_count_one_room_at_a_time:
  assumes "one_room_at_a_time es server0"
  shows "length (room_list (signaling_run es server0) r) + departures_from r es server0 =
      joins_into r es
    \<and> (\<forall>p\<in>set (room_list (signaling_run es server0) r).
          registered_in (signaling_run es server0) (socketId p) r)"
proof -
  have cnt: "length (room_list (signaling_run es server0) r) + departures_from r es server0 =
      joins_into r es"
    using count_run [OF mirror_server0 assms, of r] by (simp add: room_list_def server0_def)
  have inv: "rooms_mirror_users (signaling_run es server0)"
    using mirror_server0 assms by (rule mirror_run)
  show ?thesis
    using cnt mirror_no_stale [OF inv] by blast
qed

text \<open>
  What each relay handler does with a message from a socket that is not in \<open>users\<close>:
  an event without payload throws at the parameter list, a \<open>stream-type\<close> message
  throws at the read of \<open>userId\<close>, and every other message is dropped.
\<close>

lemma relay_unknown_sender:
  assumes "map_of (users st) sock = None"
  shows "relay sock msg st =
     (case msg of
        StreamTypeMsg streamType roomId \<Rightarrow>
          Inl (TypeError ''Cannot read properties of undefined (reading userId)'')
      | NoPayload k \<Rightarrow> Inl no_payload
      | _ \<Rightarrow> Inr [])"
proof (cases msg)
  case (NoPayload k)
  then show ?thesis
    by (cases k)
      (simp_all add: on_offer_def on_answer_def on_ice_candidate_def on_stream_type_def
        on_peer_connection_state_def)
qed (use assms in \<open>simp_all add: on_offer_def on_answer_def on_ice_candidate_def
        on_stream_type_def on_peer_connection_state_def\<close>)

text \<open>
  For a registered sender whose target is found, an \<open>ice-candidate\<close> message without
  candidate throws at line 410, where one with a candidate is relayed.
\<close>

lemma ice_candidate_missing_throws:
  "relay ''sockA'' (IceCandidateMissingMsg ''B'' ''R1'')
      (signaling_run [JoinRoom ''sockA'' join_A True, JoinRoom ''sockB'' join_B True] server0) =
     Inl (TypeError ''Cannot read properties of undefined (reading candidate)'')
   \<and> relay ''sockA'' (IceCandidateMsg ''candidate'' ''B'' ''R1'')
      (signaling_run [JoinRoom ''sockA'' join_A True, JoinRoom ''sockB'' join_B True] server0) =
     Inr [ToSocket ''sockB'' (IceCandidateFrom ''candidate'' ''A'')]
   \<and> relay ''sockA'' (NoPayload IceCandidateKind)
      (signaling_run [JoinRoom ''sockA'' join_A True, JoinRoom ''sockB'' join_B True] server0) =
     Inl no_payload"
  by (simp add: on_join_room_def join_accepted_def join_A_def join_B_def server0_def Let_def
      on_ice_candidate_def find_target_def)

lemma run_A: "snd (on_join_room ''sockA'' join_A True server0) =
    \<lparr>rooms = [(''R1'', [\<lparr>socketId = ''sockA'', userId = ''A'', userType = ''broadcaster''\<rparr>])],
     users = [(''sockA'', \<lparr>user_roomId = ''R1'', user_userId = ''A'', user_userType = ''broadcaster''\<rparr>)]\<rparr>"
  by (simp add: on_join_room_def join_accepted_def join_A_def server0_def Let_def)

text \<open>
  C4 fails for one of the five kinds. With \<open>sockA\<close> registered in room \<open>R1\<close> and a
  socket \<open>sockX\<close> that never joined: a \<open>stream-type\<close> message from \<open>sockX\<close> makes
  the handler throw a \<open>TypeError\<close>, where \<open>offer\<close>, \<open>answer\<close>, \<open>ice-candidate\<close>
  and \<open>peer-connection-state\<close> from the same socket return with nothing sent.
\<close>

theorem stream_type_unknown_sender_throws:
  "map_of (users (signaling_run [JoinRoom ''sockA'' join_A True] server0)) ''sockX'' = None
   \<and> relay ''sockX'' (StreamTypeMsg ''screen'' ''R1'') (signaling_run [JoinRoom ''sockA'' join_A True] server0) =
       Inl (TypeError ''Cannot read properties of undefined (reading userId)'')
   \<and> relay ''sockX'' (OfferMsg ''sdp'' ''A'' ''R1'') (signaling_run [JoinRoom ''sockA'' join_A True] server0) = Inr []
   \<and> relay ''sockX'' (AnswerMsg ''sdp'' ''A'' ''R1'') (signaling_run [JoinRoom ''sockA'' join_A True] server0) = Inr []
   \<and> relay ''sockX'' (IceCandidateMsg ''candidate'' ''A'' ''R1'') (signaling_run [JoinRoom ''sockA'' join_A True] server0) = Inr []
   \<and> relay ''sockX'' (PeerConnectionStateMsg ''A'' ''R1'' ''failed'' ''failed'')
        (signaling_run [JoinRoom ''sockA'' join_A True] server0) = Inr []"
  by (simp add: run_A on_stream_type_def on_offer_def on_answer_def on_ice_candidate_def
      on_peer_connection_state_def)

text \<open>
  C5, amended, at concrete input: \<open>A\<close> and \<open>B\<close> join \<open>R1\<close>, \<open>B\<close> disconnects, and a
  join without user type is rejected.
\<close>

theorem room_count_one_room_at_a_time_witness:
  "one_room_at_a_time [JoinRoom ''sockA'' join_A True, JoinRoom ''sockB'' join_B True, Disconnect ''sockB'',
      JoinRoom ''sockA'' join_A3 True] server0
   \<and> joins_into ''R1'' [JoinRoom ''sockA'' join_A True, JoinRoom ''sockB'' join_B True, Disconnect ''sockB'',
      JoinRoom ''sockA'' join_A3 True] = 2
   \<and> departures_from ''R1'' [JoinRoom ''sockA'' join_A True, JoinRoom ''sockB'' join_B True,
      Disconnect ''sockB'', JoinRoom ''sockA'' join_A3 True] server0 = 1
   \<and> room_list (signaling_run [JoinRoom ''sockA'' join_A True, JoinRoom ''sockB'' join_B True,
      Disconnect ''sockB'', JoinRoom ''sockA'' join_A3 True] server0) ''R1'' =
        [\<lparr>socketId = ''sockA'', userId = ''A'', userType = ''broadcaster''\<rparr>]
   \<and> registered_in (signaling_run [JoinRoom ''sockA'' join_A True, JoinRoom ''sockB'' join_B True,
      Disconnect ''sockB'', JoinRoom ''sockA'' join_A3 True] server0) ''sockA'' ''R1''"
proof -
  let ?es = "[JoinRoom ''sockA'' join_A True, JoinRoom ''sockB'' join_B True, Disconnect ''sockB'',
      JoinRoom ''sockA'' join_A3 True]"
  have proto: "one_room_at_a_time ?es server0"
    by (simp add: on_join_room_def on_disconnect_def join_accepted_def join_A_def join_B_def
        join_A3_def server0_def Let_def)
  have joins: "joins_into ''R1'' ?es = 2"
    by (simp add: join_accepted_def join_A_def join_B_def join_A3_def)
  have deps: "departures_from ''R1'' ?es server0 = 1"
    by (simp add: on_join_room_def on_disconnect_def join_accepted_def join_A_def join_B_def
        join_A3_def server0_def Let_def)
  have list: "room_list (signaling_run ?es server0) ''R1'' =
      [\<lparr>socketId = ''sockA'', userId = ''A'', userType = ''broadcaster''\<rparr>]"
    by (simp add: on_join_room_def on_disconnect_def join_accepted_def join_A_def join_B_def
        join_A3_def server0_def Let_def room_list_def)
  note inst = room_count_one_room_at_a_time [OF proto, of "''R1''"]
  from inst have "\<forall>p\<in>set (room_list (signaling_run ?es server0) ''R1'').
      registered_in (signaling_run ?es server0) (socketId p) ''R1''"
    by (rule conjunct2)
  then have reg: "registered_in (signaling_run ?es server0) ''sockA'' ''R1''"
    unfolding list by simp
  show ?thesis
    using proto joins deps list reg by simp
qed

text \<open>
  C5 as stated fails. A connection joins \<open>R1\<close>, then \<open>R2\<close>, and disconnects: no
  connection is registered any more, yet the list of \<open>R1\<close> still holds its entry, and
  neither \<open>leave-room\<close> nor another \<open>disconnect\<close> from it takes the entry out. When it
  instead leaves \<open>R1\<close> after the two joins, the counts are off in both rooms: \<open>R1\<close> has
  one join, no departure of a member and an empty list; \<open>R2\<close> has one join, one
  departure of a member and a list of length one.
\<close>

theorem stale_room_entry_counterexample:
  "users (signaling_run [JoinRoom ''sockA'' join_A True, JoinRoom ''sockA'' join_A2 True,
      Disconnect ''sockA'', LeaveRoom ''sockA'' ''R1'', Disconnect ''sockA''] server0) = []
   \<and> room_list (signaling_run [JoinRoom ''sockA'' join_A True, JoinRoom ''sockA'' join_A2 True,
      Disconnect ''sockA'', LeaveRoom ''sockA'' ''R1'', Disconnect ''sockA''] server0) ''R1'' =
       [\<lparr>socketId = ''sockA'', userId = ''A'', userType = ''broadcaster''\<rparr>]
   \<and> joins_into ''R1'' [JoinRoom ''sockA'' join_A True, JoinRoom ''sockA'' join_A2 True,
      LeaveRoom ''sockA'' ''R1''] = 1
   \<and> departures_from ''R1'' [JoinRoom ''sockA'' join_A True, JoinRoom ''sockA'' join_A2 True,
      LeaveRoom ''sockA'' ''R1''] server0 = 0
   \<and> length (room_list (signaling_run [JoinRoom ''sockA'' join_A True, JoinRoom ''sockA'' join_A2 True,
      LeaveRoom ''sockA'' ''R1''] server0) ''R1'') = 0
   \<and> joins_into ''R2'' [JoinRoom ''sockA'' join_A True, JoinRoom ''sockA'' join_A2 True,
      LeaveRoom ''sockA'' ''R1''] = 1
   \<and> departures_from ''R2'' [JoinRoom ''sockA'' join_A True, JoinRoom ''sockA'' join_A2 True,
      LeaveRoom ''sockA'' ''R1''] server0 = 1
   \<and> length (room_list (signaling_run [JoinRoom ''sockA'' join_A True, JoinRoom ''sockA'' join_A2 True,
      LeaveRoom ''sockA'' ''R1''] server0) ''R2'') = 1"
  by (simp add: on_join_room_def on_disconnect_def on_leave_room_def join_accepted_def join_A_def
      join_A2_def server0_def Let_def room_list_def)

end
